theory Spec2Isabelle
  imports Complex_Main
begin

section \<open>Python values and exceptions\<close>

text \<open>
  The module \<^verbatim>\<open>snakemake/remote/FTP.py\<close> is a thin adapter over the \<^verbatim>\<open>ftputil\<close> client.
  Keyword arguments carry arbitrary Python objects; the ones that matter here are
  \<^verbatim>\<open>None\<close>, booleans, integers and strings.  Strings are byte lists: every character
  class of the two patterns below is ASCII, so nothing depends on how a code point
  beyond ASCII is split into bytes.
\<close>

datatype pyval = PyNone | PyBool bool | PyInt int | PyStr string

text \<open>Python's truth value of an object, as the conditional expression tests it.\<close>

fun truthy :: "pyval \<Rightarrow> bool" where
  "truthy PyNone = False"
| "truthy (PyBool b) = b"
| "truthy (PyInt i) = (i \<noteq> 0)"
| "truthy (PyStr s) = (s \<noteq> [])"

text \<open>
  Every way an operation of the module can raise.  \<open>NameError\<close>, \<open>AttributeError\<close>,
  \<open>TypeError\<close>, \<open>IndexError\<close> and \<open>KeyError\<close> are raised by the interpreter on the module's own
  code; \<open>FTPFileException\<close> is the exception class the module imports from
  \<^verbatim>\<open>snakemake.exceptions\<close>; \<open>LibraryError\<close> stands for whatever \<^verbatim>\<open>ftputil\<close>, \<^verbatim>\<open>ftplib\<close>
  or \<^verbatim>\<open>os\<close> raise (connection refused, login failure, missing file, ...).
\<close>

datatype exn =
    NameError string
  | AttributeError string
  | TypeError string
  | IndexError string
  | KeyError string
  | FTPFileException string
  | LibraryError string

section \<open>The address pattern\<close>

text \<open>
  \<^verbatim>\<open>_matched_address\<close> is
  \<^verbatim>\<open>re.search("^(?P<host>[A-Za-z0-9\-\.]+)(?:\:(?P<port>[0-9]+))?(?P<path_remainder>.*)$", self._iofile._file)\<close>.
\<close>

definition newline :: char where
  "newline = CHR 0x0A"

definition is_host_char :: "char \<Rightarrow> bool" where
  "is_host_char c \<longleftrightarrow>
     c \<in> set (''ABCDEFGHIJKLMNOPQRSTUVWXYZ'' @ ''abcdefghijklmnopqrstuvwxyz'' @
              ''0123456789'' @ ''-.'')"

definition is_digit :: "char \<Rightarrow> bool" where
  "is_digit c \<longleftrightarrow> c \<in> set ''0123456789''"

text \<open>The groups of a successful match; an optional group that took no part is \<open>None\<close>.\<close>

record address_match =
  group_host :: string
  group_port :: "string option"
  group_path_remainder :: string

text \<open>
  The optional, non-capturing \<^verbatim>\<open>(?:\:(?P<port>[0-9]+))?\<close>, tried greedily where the host
  group stopped: a colon and the longest run of at least one digit, or nothing.
\<close>

definition match_port :: "string \<Rightarrow> string option \<times> string" where
  "match_port r =
     (case r of
        [] \<Rightarrow> (None, r)
      | c # ds \<Rightarrow>
          if c = CHR '':'' \<and> takeWhile is_digit ds \<noteq> []
          then (Some (takeWhile is_digit ds), dropWhile is_digit ds)
          else (None, r))"

text \<open>
  \<^verbatim>\<open>.*$\<close> with neither \<^verbatim>\<open>DOTALL\<close> nor \<^verbatim>\<open>MULTILINE\<close>: the dot takes every character but a
  line break, and \<^verbatim>\<open>$\<close> holds at the end of the string and also just before a line
  break that ends the string.  The result is the text the group captures.
\<close>

definition match_rest :: "string \<Rightarrow> string option" where
  "match_rest r =
     (if newline \<notin> set r then Some r
      else if last r = newline \<and> newline \<notin> set (butlast r) then Some (butlast r)
      else None)"

text \<open>
  The whole pattern.  \<^verbatim>\<open>^\<close> pins the match to the start.  The host group and the digits
  are greedy, so the first attempt takes the longest host and the longest port; should
  \<^verbatim>\<open>.*$\<close> fail after them, it fails after every shorter choice as well (the text left
  over only grows, and it keeps the offending line break), so backtracking finds nothing
  the first attempt did not.
\<close>

definition matched_address :: "string \<Rightarrow> address_match option" where
  "matched_address s =
     (let host = takeWhile is_host_char s;
          (port, r) = match_port (dropWhile is_host_char s)
      in if host = [] then None
         else (case match_rest r of
                 None \<Rightarrow> None
               | Some path \<Rightarrow>
                   Some \<lparr>group_host = host, group_port = port, group_path_remainder = path\<rparr>))"

text \<open>\<^verbatim>\<open>int(s)\<close> on a string of ASCII digits.\<close>

definition digit_val :: "char \<Rightarrow> int" where
  "digit_val c = int (length (takeWhile (\<lambda>d. d \<noteq> c) ''0123456789''))"

definition int_of_digits :: "string \<Rightarrow> int" where
  "int_of_digits ds = foldl (\<lambda>a c. 10 * a + digit_val c) 0 ds"

section \<open>The remote object\<close>

text \<open>
  The fields the methods read: \<^verbatim>\<open>self.args\<close>, \<^verbatim>\<open>self.kwargs\<close> and \<^verbatim>\<open>self.provider\<close> (with its
  own \<^verbatim>\<open>args\<close> and \<^verbatim>\<open>kwargs\<close>), which the superclass constructor stores from the arguments
  \<^verbatim>\<open>__init__\<close> hands on; \<^verbatim>\<open>self.encrypt_data_channel\<close>, which \<^verbatim>\<open>__init__\<close> sets itself; and
  \<^verbatim>\<open>self._iofile._file\<close>, the address string.  \<^verbatim>\<open>provider\<close> defaults to \<^verbatim>\<open>None\<close>.
\<close>

record remote_provider =
  provider_args :: "pyval list"
  provider_kwargs :: "string \<rightharpoonup> pyval"

record remote_object =
  args :: "pyval list"
  kwargs :: "string \<rightharpoonup> pyval"
  provider :: "remote_provider option"
  encrypt_data_channel :: pyval
  iofile_file :: string

text \<open>
  \<^verbatim>\<open>RemoteObject(*args, keep_local=..., provider=..., encrypt_data_channel=..., **kwargs)\<close>:
  Python binds the three named keywords to the parameters of \<^verbatim>\<open>__init__\<close>, so \<open>kw\<close>, the
  dictionary left for \<^verbatim>\<open>**kwargs\<close>, has none of them as a key; an absent
  \<^verbatim>\<open>encrypt_data_channel\<close> is \<^verbatim>\<open>False\<close>.  \<^verbatim>\<open>keep_local\<close> is read by no method of the module.
  The last argument is the address that \<^verbatim>\<open>snakemake.io\<close> attaches as \<^verbatim>\<open>_iofile\<close>.
\<close>

definition RemoteObject ::
  "pyval list \<Rightarrow> remote_provider option \<Rightarrow> pyval option \<Rightarrow> (string \<rightharpoonup> pyval) \<Rightarrow> string
   \<Rightarrow> remote_object" where
  "RemoteObject a pr enc kw f =
     \<lparr>args = a, kwargs = kw, provider = pr,
      encrypt_data_channel = (case enc of None \<Rightarrow> PyBool False | Some v \<Rightarrow> v),
      iofile_file = f\<rparr>"

text \<open>The properties \<^verbatim>\<open>host\<close>, \<^verbatim>\<open>port\<close>, \<^verbatim>\<open>path_remainder\<close>, \<^verbatim>\<open>local_path\<close>, \<^verbatim>\<open>remote_path\<close>.
  A property that falls off its \<^verbatim>\<open>if\<close> returns Python's \<^verbatim>\<open>None\<close>, here \<open>None\<close>.\<close>

definition host :: "remote_object \<Rightarrow> string option" where
  "host self =
     (case matched_address (iofile_file self) of
        Some m \<Rightarrow> Some (group_host m)
      | None \<Rightarrow> None)"

text \<open>\<^verbatim>\<open>port\<close> has no guard: on a failed match it calls \<^verbatim>\<open>.group\<close> on \<^verbatim>\<open>None\<close>.\<close>

definition port :: "remote_object \<Rightarrow> exn + int" where
  "port self =
     (case matched_address (iofile_file self) of
        None \<Rightarrow> Inl (AttributeError ''group'')
      | Some m \<Rightarrow>
          (case group_port m of
             Some ds \<Rightarrow> if ds \<noteq> [] then Inr (int_of_digits ds) else Inr 21
           | None \<Rightarrow> Inr 21))"

definition path_remainder :: "remote_object \<Rightarrow> string option" where
  "path_remainder self =
     (case matched_address (iofile_file self) of
        Some m \<Rightarrow> Some (group_path_remainder m)
      | None \<Rightarrow> None)"

definition local_path :: "remote_object \<Rightarrow> string" where
  "local_path self = iofile_file self"

definition remote_path :: "remote_object \<Rightarrow> string option" where
  "remote_path self = path_remainder self"

section \<open>Path functions of the standard library\<close>

text \<open>
  \<^verbatim>\<open>posixpath.normpath\<close>, \<^verbatim>\<open>posixpath.dirname\<close> and \<^verbatim>\<open>posixpath.join\<close> (two arguments),
  as \<^verbatim>\<open>list\<close> uses them, and \<^verbatim>\<open>str.split\<close> on a separator.
\<close>

definition sep :: char where
  "sep = CHR ''/''"

primrec split_on :: "char \<Rightarrow> string \<Rightarrow> string list" where
  "split_on c [] = [[]]"
| "split_on c (x # xs) =
     (if x = c then [] # split_on c xs
      else (case split_on c xs of
              [] \<Rightarrow> [[x]]
            | y # ys \<Rightarrow> (x # y) # ys))"

text \<open>The loop of \<^verbatim>\<open>normpath\<close> over the components, \<open>new_comps\<close> being the accumulator.\<close>

fun norm_comps :: "nat \<Rightarrow> string list \<Rightarrow> string list \<Rightarrow> string list" where
  "norm_comps initial_slashes new_comps [] = new_comps"
| "norm_comps initial_slashes new_comps (cmp # comps) =
     (if cmp = [] \<or> cmp = ''.'' then norm_comps initial_slashes new_comps comps
      else if cmp \<noteq> ''..'' \<or> (initial_slashes = 0 \<and> new_comps = []) \<or>
              (new_comps \<noteq> [] \<and> last new_comps = ''..'')
      then norm_comps initial_slashes (new_comps @ [cmp]) comps
      else if new_comps \<noteq> [] then norm_comps initial_slashes (butlast new_comps) comps
      else norm_comps initial_slashes new_comps comps)"

fun join_sep :: "string list \<Rightarrow> string" where
  "join_sep [] = []"
| "join_sep [c] = c"
| "join_sep (c # cs) = c @ sep # join_sep cs"

definition normpath :: "string \<Rightarrow> string" where
  "normpath path =
     (if path = [] then ''.''
      else
        let initial_slashes =
              (if take 1 path = [sep]
               then (if take 2 path = [sep, sep] \<and> take 3 path \<noteq> [sep, sep, sep] then 2 else 1)
               else (0::nat));
            comps = norm_comps initial_slashes [] (split_on sep path);
            path' = replicate initial_slashes sep @ join_sep comps
        in if path' = [] then ''.'' else path')"

text \<open>\<^verbatim>\<open>p[:p.rfind('/') + 1]\<close>, then the trailing separators stripped unless the head is
  made of separators only.\<close>

definition dirname :: "string \<Rightarrow> string" where
  "dirname p =
     (let head = rev (dropWhile (\<lambda>c. c \<noteq> sep) (rev p))
      in if head \<noteq> [] \<and> head \<noteq> replicate (length head) sep
         then rev (dropWhile (\<lambda>c. c = sep) (rev head))
         else head)"

definition path_join :: "string \<Rightarrow> string \<Rightarrow> string" where
  "path_join a b =
     (if take 1 b = [sep] then b
      else if a = [] \<or> last a = sep then a @ b
      else a @ sep # b)"

text \<open>\<^verbatim>\<open>re.search("{[^{]", pattern)\<close>: the start of the first brace that is followed by a
  character other than a brace, if there is one.\<close>

fun first_wildcard :: "string \<Rightarrow> nat option" where
  "first_wildcard (a # b # cs) =
     (if a = CHR ''{'' \<and> b \<noteq> CHR ''{'' then Some 0
      else map_option Suc (first_wildcard (b # cs)))"
| "first_wildcard cs = None"

section \<open>The client library, the operating system, and the calls made on them\<close>

text \<open>
  \<^verbatim>\<open>ftputil\<close>, \<^verbatim>\<open>ftplib\<close>, \<^verbatim>\<open>os\<close> and \<^verbatim>\<open>snakemake.io\<close> are not part of the module.  Their
  behaviour is a parameter: each entry point is a function of the state of the world
  \<open>'w\<close> (the server, the network, the local disk) that returns a value or the
  description of the exception it raises, and the next state of the world.  Nothing is
  assumed about them.
\<close>

datatype ftp_class = FTP | FTP_TLS

text \<open>What \<^verbatim>\<open>session_factory\<close> and \<^verbatim>\<open>FTPHost\<close> are given.\<close>

record conn_args =
  conn_host :: pyval
  conn_username :: pyval
  conn_password :: pyval
  conn_port :: pyval
  conn_encrypt_data_channel :: pyval
  conn_base_class :: ftp_class

type_synonym ('w, 'a) action = "'w \<Rightarrow> (string + 'a) \<times> 'w"

record 'w library =
  lib_connect :: "conn_args \<Rightarrow> ('w, unit) action"
  lib_close :: "nat \<Rightarrow> ('w, unit) action"
  lib_path_exists :: "nat \<Rightarrow> string option \<Rightarrow> ('w, bool) action"
  lib_synchronize_times :: "nat \<Rightarrow> ('w, unit) action"
  lib_getmtime :: "nat \<Rightarrow> string option \<Rightarrow> ('w, real) action"
  lib_getsize :: "nat \<Rightarrow> string option \<Rightarrow> ('w, nat) action"
  lib_download :: "nat \<Rightarrow> string option \<Rightarrow> string \<Rightarrow> ('w, unit) action"
  lib_upload :: "nat \<Rightarrow> string \<Rightarrow> string option \<Rightarrow> ('w, unit) action"
  lib_walk :: "nat \<Rightarrow> string \<Rightarrow> ('w, (string \<times> string list \<times> string list) list) action"
  os_path_exists :: "string \<Rightarrow> ('w, bool) action"
  os_makedirs :: "string \<Rightarrow> ('w, unit) action"
  io_size_local :: "string \<Rightarrow> ('w, nat) action"

text \<open>
  The calls the module makes, in the order it makes them.  A connection is named by
  the number of connections opened before it.  A path argument is \<open>None\<close> where the
  module would pass Python's \<^verbatim>\<open>None\<close>.
\<close>

datatype event =
    Connect nat conn_args
  | Close nat
  | PathExists nat "string option"
  | SynchronizeTimes nat
  | GetMtime nat "string option"
  | GetSize nat "string option"
  | Download nat "string option" string
  | Upload nat string "string option"
  | Walk nat string
  | OsPathExists string
  | OsMakedirs string
  | SizeLocal string

type_synonym 'w state = "event list \<times> 'w"

type_synonym ('w, 'a) io = "'w state \<Rightarrow> (exn + 'a) \<times> 'w state"

definition io_return :: "'a \<Rightarrow> ('w, 'a) io" where
  "io_return x = (\<lambda>s. (Inr x, s))"

definition io_raise :: "exn \<Rightarrow> ('w, 'a) io" where
  "io_raise e = (\<lambda>s. (Inl e, s))"

definition io_bind :: "('w, 'a) io \<Rightarrow> ('a \<Rightarrow> ('w, 'b) io) \<Rightarrow> ('w, 'b) io" where
  "io_bind m f = (\<lambda>s. case m s of (Inl e, s') \<Rightarrow> (Inl e, s') | (Inr x, s') \<Rightarrow> f x s')"

text \<open>A call on the library: it is recorded, then answered by the library.\<close>

definition call :: "event \<Rightarrow> ('w, 'a) action \<Rightarrow> ('w, 'a) io" where
  "call ev f = (\<lambda>(tr, w). case f w of
                  (Inl msg, w') \<Rightarrow> (Inl (LibraryError msg), (tr @ [ev], w'))
                | (Inr x, w') \<Rightarrow> (Inr x, (tr @ [ev], w')))"

fun is_connect :: "event \<Rightarrow> bool" where
  "is_connect (Connect c ca) = True"
| "is_connect ev = False"

definition next_conn :: "event list \<Rightarrow> nat" where
  "next_conn tr = length (filter is_connect tr)"

section \<open>The connection context manager\<close>

text \<open>
  \<^verbatim>\<open>ftpc\<close> up to its \<^verbatim>\<open>yield\<close>.  The dictionary starts from the object's own values and is
  overwritten first from \<^verbatim>\<open>self.provider.kwargs\<close>, then from \<^verbatim>\<open>self.kwargs\<close>.
\<close>

definition base_kwargs :: "remote_object \<Rightarrow> int \<Rightarrow> (string \<rightharpoonup> pyval)" where
  "base_kwargs self p =
     [''host'' \<mapsto> (case host self of None \<Rightarrow> PyNone | Some h \<Rightarrow> PyStr h),
      ''username'' \<mapsto> PyNone,
      ''password'' \<mapsto> PyNone,
      ''port'' \<mapsto> PyInt p,
      ''encrypt_data_channel'' \<mapsto> encrypt_data_channel self]"

definition kwargs_to_use :: "remote_object \<Rightarrow> remote_provider \<Rightarrow> int \<Rightarrow> (string \<rightharpoonup> pyval)" where
  "kwargs_to_use self pr p = base_kwargs self p ++ provider_kwargs pr ++ kwargs self"

definition getitem :: "(string \<rightharpoonup> pyval) \<Rightarrow> string \<Rightarrow> exn + pyval" where
  "getitem d k = (case d k of None \<Rightarrow> Inl (KeyError k) | Some v \<Rightarrow> Inr v)"

text \<open>The subscripts of lines 60 to 68, in the order they are evaluated, and the choice
  of the base class.\<close>

definition session_args :: "(string \<rightharpoonup> pyval) \<Rightarrow> exn + conn_args" where
  "session_args kw =
     (case getitem kw ''encrypt_data_channel'' of Inl e \<Rightarrow> Inl e | Inr enc \<Rightarrow>
      case getitem kw ''port'' of Inl e \<Rightarrow> Inl e | Inr prt \<Rightarrow>
      case getitem kw ''host'' of Inl e \<Rightarrow> Inl e | Inr hst \<Rightarrow>
      case getitem kw ''username'' of Inl e \<Rightarrow> Inl e | Inr usr \<Rightarrow>
      case getitem kw ''password'' of Inl e \<Rightarrow> Inl e | Inr pwd \<Rightarrow>
        Inr \<lparr>conn_host = hst, conn_username = usr, conn_password = pwd, conn_port = prt,
             conn_encrypt_data_channel = enc,
             conn_base_class = (if truthy enc then FTP_TLS else FTP)\<rparr>)"

definition ftpc_enter :: "'w library \<Rightarrow> remote_object \<Rightarrow> ('w, nat) io" where
  "ftpc_enter L self =
     (case provider self of
        None \<Rightarrow> io_raise (AttributeError ''args'')
      | Some pr \<Rightarrow>
          (case port self of
             Inl e \<Rightarrow> io_raise e
           | Inr p \<Rightarrow>
               (case session_args (kwargs_to_use self pr p) of
                  Inl e \<Rightarrow> io_raise e
                | Inr ca \<Rightarrow>
                    (\<lambda>(tr, w).
                       io_bind (call (Connect (next_conn tr) ca) (lib_connect L ca))
                         (\<lambda>_. io_return (next_conn tr)) (tr, w)))))"

text \<open>\<^verbatim>\<open>ftpc\<close> after its \<^verbatim>\<open>yield\<close>: \<^verbatim>\<open>conn.close()\<close>.\<close>

definition ftpc_exit :: "'w library \<Rightarrow> nat \<Rightarrow> ('w, unit) io" where
  "ftpc_exit L conn = call (Close conn) (lib_close L conn)"

text \<open>
  \<^verbatim>\<open>with self.ftpc() as ftpc: body\<close>.  \<^verbatim>\<open>contextlib.contextmanager\<close> resumes the generator
  after the \<^verbatim>\<open>yield\<close> when the body finishes or returns; when the body raises, it throws
  the exception into the generator at the \<^verbatim>\<open>yield\<close>, and as the \<^verbatim>\<open>yield\<close> stands in no
  \<^verbatim>\<open>try\<close>, the exception leaves the generator there and the rest of it does not run.
  \<open>io_bind\<close> does the same: a raising body skips what follows.
\<close>

definition with_ftpc :: "'w library \<Rightarrow> remote_object \<Rightarrow> (nat \<Rightarrow> ('w, 'a) io) \<Rightarrow> ('w, 'a) io" where
  "with_ftpc L self body =
     io_bind (ftpc_enter L self) (\<lambda>ftpc.
     io_bind (body ftpc) (\<lambda>result.
     io_bind (ftpc_exit L ftpc) (\<lambda>_.
     io_return result)))"

section \<open>The operations\<close>

text \<open>
  The name \<^verbatim>\<open>SFTPFileException\<close> is bound nowhere in the module (it imports
  \<^verbatim>\<open>FTPFileException\<close>), so evaluating it raises \<^verbatim>\<open>NameError\<close> before the call and its
  argument are looked at.
\<close>

definition raise_SFTPFileException :: "('w, 'a) io" where
  "raise_SFTPFileException = io_raise (NameError ''SFTPFileException'')"

text \<open>\<^verbatim>\<open>exists\<close>: what follows the first \<^verbatim>\<open>return\<close> in the \<^verbatim>\<open>with\<close> block is never reached.\<close>

definition exists :: "'w library \<Rightarrow> remote_object \<Rightarrow> ('w, bool) io" where
  "exists L self =
     (case matched_address (iofile_file self) of
        Some m \<Rightarrow>
          with_ftpc L self (\<lambda>ftpc.
            call (PathExists ftpc (remote_path self)) (lib_path_exists L ftpc (remote_path self)))
      | None \<Rightarrow> raise_SFTPFileException)"

definition mtime :: "'w library \<Rightarrow> remote_object \<Rightarrow> ('w, real) io" where
  "mtime L self =
     io_bind (exists L self) (\<lambda>found.
       if found then
         with_ftpc L self (\<lambda>ftpc.
           io_bind (call (SynchronizeTimes ftpc) (lib_synchronize_times L ftpc)) (\<lambda>_.
           call (GetMtime ftpc (remote_path self)) (lib_getmtime L ftpc (remote_path self))))
       else raise_SFTPFileException)"

definition size_ftp :: "'w library \<Rightarrow> remote_object \<Rightarrow> ('w, nat) io" where
  "size_ftp L self =
     io_bind (exists L self) (\<lambda>found.
       if found then
         with_ftpc L self (\<lambda>ftpc.
           call (GetSize ftpc (remote_path self)) (lib_getsize L ftpc (remote_path self)))
       else call (SizeLocal (iofile_file self)) (io_size_local L (iofile_file self)))"

definition download :: "'w library \<Rightarrow> remote_object \<Rightarrow> bool \<Rightarrow> ('w, unit) io" where
  "download L self make_dest_dirs =
     with_ftpc L self (\<lambda>ftpc.
       io_bind (exists L self) (\<lambda>found.
         if found then
           io_bind (call (OsPathExists (dirname (local_path self)))
                      (os_path_exists L (dirname (local_path self)))) (\<lambda>present.
           io_bind (if \<not> present \<and> make_dest_dirs
                    then call (OsMakedirs (dirname (local_path self)))
                           (os_makedirs L (dirname (local_path self)))
                    else io_return ()) (\<lambda>_.
           io_bind (call (SynchronizeTimes ftpc) (lib_synchronize_times L ftpc)) (\<lambda>_.
           call (Download ftpc (remote_path self) (local_path self))
             (lib_download L ftpc (remote_path self) (local_path self)))))
         else raise_SFTPFileException))"

definition upload :: "'w library \<Rightarrow> remote_object \<Rightarrow> ('w, unit) io" where
  "upload L self =
     with_ftpc L self (\<lambda>ftpc.
       io_bind (call (SynchronizeTimes ftpc) (lib_synchronize_times L ftpc)) (\<lambda>_.
       call (Upload ftpc (local_path self) (remote_path self))
         (lib_upload L ftpc (local_path self) (remote_path self))))"

text \<open>\<^verbatim>\<open>list\<close>.  The directory to walk: the directory part of the normalised pattern up
  to its first wildcard, or of the whole pattern when it has none; \<^verbatim>\<open>"."\<close> when empty.\<close>

definition list_dirname :: "string \<Rightarrow> string" where
  "list_dirname path =
     (let pattern = normpath path;
          dirname' = (case first_wildcard pattern of
                        Some start \<Rightarrow> dirname (take start pattern)
                      | None \<Rightarrow> dirname pattern)
      in if dirname' = [] then ''.'' else dirname')"

text \<open>The first comprehension: for every directory walked, its files, then its
  directories, each joined to the directory's path unless that is \<^verbatim>\<open>"."\<close>.\<close>

definition walk_paths :: "(string \<times> string list \<times> string list) list \<Rightarrow> string list" where
  "walk_paths entries =
     concat (map (\<lambda>(dirpath, dirnames, filenames).
                    map (\<lambda>f. if dirpath \<noteq> ''.'' then path_join dirpath f else f)
                      (filenames @ dirnames))
               entries)"

text \<open>The second comprehension: \<^verbatim>\<open>file_path[1:] if file_path[0] == "/" else file_path\<close>;
  the subscript raises on an empty string.\<close>

definition strip_leading_sep :: "string \<Rightarrow> exn + string" where
  "strip_leading_sep file_path =
     (case file_path of
        [] \<Rightarrow> Inl (IndexError ''string index out of range'')
      | c # cs \<Rightarrow> Inr (if c = sep then cs else file_path))"

fun strip_all :: "string list \<Rightarrow> exn + string list" where
  "strip_all [] = Inr []"
| "strip_all (file_path # rest) =
     (case strip_leading_sep file_path of
        Inl e \<Rightarrow> Inl e
      | Inr stripped \<Rightarrow>
          (case strip_all rest of
             Inl e \<Rightarrow> Inl e
           | Inr file_list \<Rightarrow> Inr (stripped # file_list)))"

text \<open>A path without its leading separator, if it has one: what \<open>strip_leading_sep\<close>
  returns on a path that is not empty.\<close>

definition stripped :: "string \<Rightarrow> string" where
  "stripped p = (if hd p = sep then tl p else p)"

text \<open>\<^verbatim>\<open>os.path.normpath\<close> refuses \<^verbatim>\<open>None\<close>, which is what \<^verbatim>\<open>remote_path\<close> is when the address
  did not match.\<close>

definition list_ftp :: "'w library \<Rightarrow> remote_object \<Rightarrow> ('w, string list) io" where
  "list_ftp L self =
     (case remote_path self of
        None \<Rightarrow> io_raise (TypeError ''normpath'')
      | Some path \<Rightarrow>
          with_ftpc L self (\<lambda>ftpc.
            io_bind (call (Walk ftpc (list_dirname path)) (lib_walk L ftpc (list_dirname path)))
              (\<lambda>entries.
                 case strip_all (walk_paths entries) of
                   Inl e \<Rightarrow> io_raise e
                 | Inr file_list \<Rightarrow> io_return file_list)))"

section \<open>The address grammar of the specification\<close>

text \<open>
  The specification gives the grammar \<^verbatim>\<open>^([A-Za-z0-9\-.]+)(:[0-9]+)?(.*)$\<close> for
  \<^verbatim>\<open>host[:port]path\<close>: a string \<open>s\<close> is made of a host \<open>h\<close>, an optional port \<open>p\<close> and a
  path \<open>r\<close> when it is their concatenation, the host is a non-empty run of host
  characters, the port a colon and a non-empty run of digits, and the path has no line
  break (the dot of the pattern matches none).  These definitions follow the
  specification, not the code; the theorems compare them with \<open>matched_address\<close>.
\<close>

definition port_segment :: "string option \<Rightarrow> string" where
  "port_segment p = (case p of None \<Rightarrow> [] | Some ds \<Rightarrow> CHR '':'' # ds)"

definition address_grammar :: "string \<Rightarrow> string \<Rightarrow> string option \<Rightarrow> string \<Rightarrow> bool" where
  "address_grammar s h p r \<longleftrightarrow>
     s = h @ port_segment p @ r \<and>
     h \<noteq> [] \<and> list_all is_host_char h \<and>
     (case p of None \<Rightarrow> True | Some ds \<Rightarrow> ds \<noteq> [] \<and> list_all is_digit ds) \<and>
     newline \<notin> set r"

definition wellformed_address :: "string \<Rightarrow> bool" where
  "wellformed_address s \<longleftrightarrow> (\<exists>h p r. address_grammar s h p r)"

text \<open>The port a match stands for: the number its digits spell, 21 without digits.\<close>

definition parsed_port :: "string option \<Rightarrow> int" where
  "parsed_port p = (case p of None \<Rightarrow> 21 | Some ds \<Rightarrow> int_of_digits ds)"

text \<open>Writing an address back from a host, a port number and a path.\<close>

fun decimal :: "nat \<Rightarrow> string" where
  "decimal n =
     (if n < 10 then [''0123456789'' ! n]
      else decimal (n div 10) @ [''0123456789'' ! (n mod 10)])"

declare decimal.simps [simp del]

definition serialize_address :: "string \<Rightarrow> nat \<Rightarrow> string \<Rightarrow> string" where
  "serialize_address h n r = h @ CHR '':'' # decimal n @ r"

section \<open>The precedence of the specification\<close>

text \<open>
  The specification orders the three sources of a connection setting: a per-file
  override wins over a per-provider default, which wins over the built-in default.
  This definition follows the specification; the theorems compare it with
  \<open>kwargs_to_use\<close>.
\<close>

definition precedence ::
  "(string \<rightharpoonup> pyval) \<Rightarrow> (string \<rightharpoonup> pyval) \<Rightarrow> (string \<rightharpoonup> pyval) \<Rightarrow> (string \<rightharpoonup> pyval)" where
  "precedence per_file per_provider defaults k =
     (case per_file k of
        Some v \<Rightarrow> Some v
      | None \<Rightarrow> (case per_provider k of Some v \<Rightarrow> Some v | None \<Rightarrow> defaults k))"

section \<open>A small server to run the operations on\<close>

text \<open>
  One instance of the library parameter, for evaluating the operations on concrete
  inputs: a server that holds files (path and content) and a directory listing, a
  local disk with files and directories, and a connection that always opens.  Reading
  what is not there fails, as does creating a directory that exists or has no name.
\<close>

record toy_world =
  remote_files :: "(string \<times> string) list"
  remote_tree :: "(string \<times> string list \<times> string list) list"
  local_files :: "(string \<times> string) list"
  local_dirs :: "string list"

definition toy_remote :: "toy_world \<Rightarrow> string option \<Rightarrow> string option" where
  "toy_remote w p = (case p of None \<Rightarrow> None | Some q \<Rightarrow> map_of (remote_files w) q)"

definition toy_library :: "toy_world library" where
  "toy_library =
     \<lparr>lib_connect = (\<lambda>ca w. (Inr (), w)),
      lib_close = (\<lambda>c w. (Inr (), w)),
      lib_path_exists = (\<lambda>c p w. (Inr (toy_remote w p \<noteq> None), w)),
      lib_synchronize_times = (\<lambda>c w. (Inr (), w)),
      lib_getmtime = (\<lambda>c p w.
        (case toy_remote w p of None \<Rightarrow> Inl ''550 no such file'' | Some b \<Rightarrow> Inr 0, w)),
      lib_getsize = (\<lambda>c p w.
        (case toy_remote w p of None \<Rightarrow> Inl ''550 no such file'' | Some b \<Rightarrow> Inr (length b), w)),
      lib_download = (\<lambda>c p target w.
        (case toy_remote w p of
           None \<Rightarrow> (Inl ''550 no such file'', w)
         | Some b \<Rightarrow> (Inr (), w\<lparr>local_files := (target, b) # local_files w\<rparr>))),
      lib_upload = (\<lambda>c source p w.
        (case (map_of (local_files w) source, p) of
           (Some b, Some q) \<Rightarrow> (Inr (), w\<lparr>remote_files := (q, b) # remote_files w\<rparr>)
         | _ \<Rightarrow> (Inl ''no such file'', w))),
      lib_walk = (\<lambda>c top w.
        (Inr (filter (\<lambda>(dirpath, dirnames, filenames). take (length top) dirpath = top)
                (remote_tree w)), w)),
      os_path_exists = (\<lambda>d w. (Inr (d \<in> set (local_dirs w)), w)),
      os_makedirs = (\<lambda>d w.
        if d = [] \<or> d \<in> set (local_dirs w) then (Inl ''cannot create directory'', w)
        else (Inr (), w\<lparr>local_dirs := d # local_dirs w\<rparr>)),
      io_size_local = (\<lambda>f w.
        (case map_of (local_files w) f of
           None \<Rightarrow> Inl ''no such file''
         | Some b \<Rightarrow> Inr (length b), w))\<rparr>"

text \<open>An empty server and disk, and an object as \<^verbatim>\<open>RemoteProvider().remote(address)\<close>
  builds it: a provider without arguments, no keyword of its own.\<close>

definition empty_world :: toy_world where
  "empty_world = \<lparr>remote_files = [], remote_tree = [], local_files = [], local_dirs = []\<rparr>"

definition plain_provider :: remote_provider where
  "plain_provider = \<lparr>provider_args = [], provider_kwargs = Map.empty\<rparr>"

definition example_object :: "string \<Rightarrow> remote_object" where
  "example_object address = RemoteObject [] (Some plain_provider) None Map.empty address"

text \<open>A server that holds the one file \<^verbatim>\<open>/pub/data.txt\<close>, of five bytes.\<close>

definition example_world :: toy_world where
  "example_world =
     \<lparr>remote_files = [(''/pub/data.txt'', ''hello'')], remote_tree = [],
      local_files = [], local_dirs = []\<rparr>"



text \<open>
  Two objects on providers with keywords of their own.  The first is built with
  \<^verbatim>\<open>encrypt_data_channel=True\<close> on a provider built with \<^verbatim>\<open>encrypt_data_channel=False\<close>; the
  second with \<^verbatim>\<open>port=2121\<close> on a provider built with \<^verbatim>\<open>port=990\<close>.
\<close>

definition unencrypted_provider :: remote_provider where
  "unencrypted_provider =
     \<lparr>provider_args = [], provider_kwargs = [''encrypt_data_channel'' \<mapsto> PyBool False]\<rparr>"

definition encrypted_file_object :: remote_object where
  "encrypted_file_object =
     RemoteObject [] (Some unencrypted_provider) (Some (PyBool True)) Map.empty
       ''ftp.example.com/pub/data.txt''"

definition port_provider :: remote_provider where
  "port_provider = \<lparr>provider_args = [], provider_kwargs = [''port'' \<mapsto> PyInt 990]\<rparr>"

definition port_override_object :: remote_object where
  "port_override_object =
     RemoteObject [] (Some port_provider) None [''port'' \<mapsto> PyInt 2121]
       ''ftp.example.com/pub/data.txt''"






text \<open>What an anonymous, unencrypted connection to a host and port is asked with.\<close>

definition anonymous_args :: "string \<Rightarrow> int \<Rightarrow> conn_args" where
  "anonymous_args h p =
     \<lparr>conn_host = PyStr h, conn_username = PyNone, conn_password = PyNone,
      conn_port = PyInt p, conn_encrypt_data_channel = PyBool False, conn_base_class = FTP\<rparr>"

section \<open>Facts about the address pattern\<close>

lemma is_digit_host: "is_digit c \<Longrightarrow> is_host_char c"
  by (auto simp: is_digit_def is_host_char_def)

lemma colon_not_host: "\<not> is_host_char (CHR '':'')"
  by (simp add: is_host_char_def)

lemma newline_not_host: "\<not> is_host_char newline"
  by (simp add: is_host_char_def newline_def)

lemma newline_not_digit: "\<not> is_digit newline"
  by (simp add: is_digit_def newline_def)

lemma digit_nth: "d < 10 \<Longrightarrow> is_digit (''0123456789'' ! d)"
proof -
  assume "d < 10"
  then have "d \<in> {0,1,2,3,4,5,6,7,8,9}" by auto
  then show ?thesis by (auto simp: is_digit_def)
qed

lemma digit_val_nth: "d < 10 \<Longrightarrow> digit_val (''0123456789'' ! d) = int d"
proof -
  assume "d < 10"
  then have "d \<in> {0,1,2,3,4,5,6,7,8,9}" by auto
  then show ?thesis by (auto simp: digit_val_def)
qed

lemma decimal_digits: "list_all is_digit (decimal n)"
proof (induction n rule: decimal.induct)
  case (1 n)
  show ?case
  proof (cases "n < 10")
    case True
    then show ?thesis by (subst decimal.simps) (simp add: digit_nth)
  next
    case False
    with 1 show ?thesis by (subst decimal.simps) (simp add: digit_nth)
  qed
qed

lemma decimal_nonempty: "decimal n \<noteq> []"
  by (subst decimal.simps) simp

lemma int_of_digits_snoc: "int_of_digits (ds @ [c]) = 10 * int_of_digits ds + digit_val c"
  by (simp add: int_of_digits_def)

lemma int_of_digits_decimal: "int_of_digits (decimal n) = int n"
proof (induction n rule: decimal.induct)
  case (1 n)
  show ?case
  proof (cases "n < 10")
    case True
    then show ?thesis by (subst decimal.simps) (simp add: int_of_digits_def digit_val_nth)
  next
    case False
    then have "int_of_digits (decimal n) = 10 * int (n div 10) + int (n mod 10)"
      using 1 by (subst decimal.simps) (simp add: int_of_digits_snoc digit_val_nth)
    then show ?thesis by (simp add: of_nat_div of_nat_mod)
  qed
qed

lemma digit_val_nonneg: "0 \<le> digit_val c"
  by (simp add: digit_val_def)

lemma foldl_digits_nonneg: "0 \<le> a \<Longrightarrow> 0 \<le> foldl (\<lambda>a c. 10 * a + digit_val c) a ds"
  by (induction ds arbitrary: a) (simp_all add: digit_val_nonneg)

lemma parsed_port_nonneg: "0 \<le> parsed_port p"
  by (cases p) (simp_all add: parsed_port_def int_of_digits_def foldl_digits_nonneg)

text \<open>The optional port group: what it takes and what it leaves.\<close>

lemma match_port_Nil: "match_port [] = (None, [])"
  by (simp add: match_port_def)

lemma match_port_hit:
  "takeWhile is_digit ds \<noteq> [] \<Longrightarrow>
   match_port (CHR '':'' # ds) = (Some (takeWhile is_digit ds), dropWhile is_digit ds)"
  by (simp add: match_port_def)

lemma match_port_miss:
  "c \<noteq> CHR '':'' \<or> takeWhile is_digit ds = [] \<Longrightarrow> match_port (c # ds) = (None, c # ds)"
  by (auto simp add: match_port_def)

lemma match_port_cases:
  obtains (miss) "match_port r = (None, r)"
  | (hit) ds where "r = CHR '':'' # ds" "takeWhile is_digit ds \<noteq> []"
      "match_port r = (Some (takeWhile is_digit ds), dropWhile is_digit ds)"
proof (cases r)
  case Nil
  then show ?thesis using miss match_port_Nil by simp
next
  case (Cons c ds)
  show ?thesis
  proof (cases "c = CHR '':'' \<and> takeWhile is_digit ds \<noteq> []")
    case True
    then show ?thesis using hit [of ds] Cons match_port_hit by simp
  next
    case False
    then show ?thesis using miss Cons match_port_miss [of c ds] by auto
  qed
qed

lemma match_port_segment: "r = port_segment (fst (match_port r)) @ snd (match_port r)"
  by (cases r rule: match_port_cases) (simp_all add: port_segment_def)

lemma match_port_group:
  "case fst (match_port r) of None \<Rightarrow> True | Some ds \<Rightarrow> ds \<noteq> [] \<and> list_all is_digit ds"
proof (cases r rule: match_port_cases)
  case miss
  then show ?thesis by simp
next
  case (hit ds)
  have "list_all is_digit (takeWhile is_digit ds)"
    unfolding list_all_iff using set_takeWhileD by fastforce
  with hit show ?thesis by simp
qed

lemma match_port_None: "fst (match_port r) = None \<Longrightarrow> snd (match_port r) = r"
  by (cases r rule: match_port_cases) simp_all

lemma match_port_greedy:
  "fst (match_port r) \<noteq> None \<Longrightarrow>
   snd (match_port r) = [] \<or> \<not> is_digit (hd (snd (match_port r)))"
proof (cases r rule: match_port_cases)
  case miss
  assume "fst (match_port r) \<noteq> None"
  with miss show ?thesis by simp
next
  case (hit ds)
  then show ?thesis using hd_dropWhile [of is_digit ds] by auto
qed

lemma takeWhile_digits_append:
  assumes "list_all is_digit ds" "r = [] \<or> \<not> is_digit (hd r)"
  shows "takeWhile is_digit (ds @ r) = ds" and "dropWhile is_digit (ds @ r) = r"
proof -
  have a: "\<And>x. x \<in> set ds \<Longrightarrow> is_digit x"
    using assms(1) by (simp add: list_all_iff)
  have t: "takeWhile is_digit r = []" and d: "dropWhile is_digit r = r"
    using assms(2) by (cases r; simp)+
  show "takeWhile is_digit (ds @ r) = ds"
    using takeWhile_append2 [of ds is_digit r] a t by simp
  show "dropWhile is_digit (ds @ r) = r"
    using dropWhile_append2 [of ds is_digit r] a d by simp
qed

lemma match_port_digits:
  assumes "ds \<noteq> []" "list_all is_digit ds" "r = [] \<or> \<not> is_digit (hd r)"
  shows "match_port (CHR '':'' # ds @ r) = (Some ds, r)"
  using match_port_hit [of "ds @ r"] takeWhile_digits_append [OF assms(2,3)] assms(1)
  by simp

lemma rest_subset: "set (snd (match_port r)) \<subseteq> set r"
proof -
  have "set r = set (port_segment (fst (match_port r))) \<union> set (snd (match_port r))"
    using match_port_segment [of r] by (metis set_append)
  then show ?thesis by blast
qed

lemma rest_not_digit:
  "snd (match_port (dropWhile is_host_char s)) = [] \<or>
   \<not> is_digit (hd (snd (match_port (dropWhile is_host_char s))))"
proof (cases "fst (match_port (dropWhile is_host_char s))")
  case None
  then have "snd (match_port (dropWhile is_host_char s)) = dropWhile is_host_char s"
    by (rule match_port_None)
  then show ?thesis
    using hd_dropWhile [of is_host_char s] is_digit_host by auto
next
  case (Some ds)
  then show ?thesis using match_port_greedy [of "dropWhile is_host_char s"] by simp
qed

text \<open>The whole pattern.\<close>

lemma match_rest_no_newline: "newline \<notin> set r \<Longrightarrow> match_rest r = Some r"
  by (simp add: match_rest_def)

lemma host_nonempty: "s \<noteq> [] \<Longrightarrow> is_host_char (hd s) \<Longrightarrow> takeWhile is_host_char s \<noteq> []"
  by (cases s) simp_all

lemma matched_address_eq:
  "matched_address s =
     (if takeWhile is_host_char s = [] then None
      else case match_rest (snd (match_port (dropWhile is_host_char s))) of
             None \<Rightarrow> None
           | Some path \<Rightarrow>
               Some \<lparr>group_host = takeWhile is_host_char s,
                     group_port = fst (match_port (dropWhile is_host_char s)),
                     group_path_remainder = path\<rparr>)"
  by (simp add: matched_address_def Let_def case_prod_beta)

lemma matched_address_no_newline:
  assumes "s \<noteq> []" "is_host_char (hd s)" "newline \<notin> set s"
  shows "matched_address s =
     Some \<lparr>group_host = takeWhile is_host_char s,
           group_port = fst (match_port (dropWhile is_host_char s)),
           group_path_remainder = snd (match_port (dropWhile is_host_char s))\<rparr>"
proof -
  have "newline \<notin> set (dropWhile is_host_char s)"
    using assms(3) set_dropWhileD by fastforce
  then have "newline \<notin> set (snd (match_port (dropWhile is_host_char s)))"
    using rest_subset by blast
  then show ?thesis
    using host_nonempty [OF assms(1,2)]
    by (simp add: matched_address_eq match_rest_no_newline)
qed

lemma matched_address_serialize:
  assumes "h \<noteq> []" "list_all is_host_char h" "r = [] \<or> \<not> is_digit (hd r)"
    "newline \<notin> set r"
  shows "matched_address (serialize_address h n r) =
     Some \<lparr>group_host = h, group_port = Some (decimal n), group_path_remainder = r\<rparr>"
proof -
  let ?t = "CHR '':'' # decimal n @ r"
  have a: "\<And>x. x \<in> set h \<Longrightarrow> is_host_char x"
    using assms(2) by (simp add: list_all_iff)
  have t: "takeWhile is_host_char (h @ ?t) = h"
    using takeWhile_append2 [of h is_host_char ?t] a colon_not_host by simp
  have d: "dropWhile is_host_char (h @ ?t) = ?t"
    using dropWhile_append2 [of h is_host_char ?t] a colon_not_host by simp
  have m: "match_port ?t = (Some (decimal n), r)"
    by (rule match_port_digits [OF decimal_nonempty decimal_digits assms(3)])
  show ?thesis
    using assms(1,4)
    by (simp add: matched_address_eq serialize_address_def t d m match_rest_no_newline)
qed

text \<open>The grammar of the specification, decided on the string.\<close>

lemma grammar_no_newline:
  assumes "address_grammar s h p r"
  shows "newline \<notin> set s"
proof -
  from assms have h: "\<forall>c \<in> set h. is_host_char c" and r: "newline \<notin> set r"
    and s: "s = h @ port_segment p @ r"
    by (auto simp: address_grammar_def list_all_iff)
  have "newline \<notin> set (port_segment p)"
    using assms newline_not_digit
    by (auto simp: address_grammar_def port_segment_def newline_def list_all_iff
        split: option.splits)
  with h r s newline_not_host show ?thesis by auto
qed

lemma wellformed_address_iff:
  "wellformed_address s \<longleftrightarrow> s \<noteq> [] \<and> is_host_char (hd s) \<and> newline \<notin> set s"
proof
  assume "wellformed_address s"
  then obtain h p r where g: "address_grammar s h p r"
    by (auto simp: wellformed_address_def)
  then have "s \<noteq> []" "is_host_char (hd s)"
    by (cases h; auto simp: address_grammar_def)+
  with grammar_no_newline [OF g] show "s \<noteq> [] \<and> is_host_char (hd s) \<and> newline \<notin> set s"
    by simp
next
  assume a: "s \<noteq> [] \<and> is_host_char (hd s) \<and> newline \<notin> set s"
  then have "address_grammar s [hd s] None (tl s)"
    by (cases s) (auto simp: address_grammar_def port_segment_def)
  then show "wellformed_address s"
    unfolding wellformed_address_def by blast
qed

lemma port_matched:
  assumes "matched_address (iofile_file self) = Some m"
    "case group_port m of None \<Rightarrow> True | Some ds \<Rightarrow> ds \<noteq> [] \<and> list_all is_digit ds"
  shows "port self = Inr (parsed_port (group_port m))"
  using assms by (cases "group_port m") (simp_all add: port_def parsed_port_def)

text \<open>Which strings the pattern rejects.\<close>

lemma matched_prefix:
  obtains pre where
    "s = pre @ snd (match_port (dropWhile is_host_char s))" "newline \<notin> set pre"
proof -
  let ?d = "dropWhile is_host_char s"
  let ?pre = "takeWhile is_host_char s @ port_segment (fst (match_port ?d))"
  have "newline \<notin> set (takeWhile is_host_char s)"
    using newline_not_host set_takeWhileD by fastforce
  moreover have "newline \<notin> set (port_segment (fst (match_port ?d)))"
    using match_port_group [of ?d] newline_not_digit
    by (cases "fst (match_port ?d)") (auto simp: port_segment_def newline_def list_all_iff)
  ultimately have n: "newline \<notin> set ?pre" by simp
  have "s = ?pre @ snd (match_port ?d)"
    using match_port_segment [of ?d] takeWhile_dropWhile_id [of is_host_char s] by simp
  with n show ?thesis using that by blast
qed

lemma match_rest_append:
  assumes "newline \<notin> set pre"
  shows "match_rest r = None \<longleftrightarrow>
     newline \<in> set (pre @ r) \<and>
     \<not> (last (pre @ r) = newline \<and> newline \<notin> set (butlast (pre @ r)))"
proof (cases "r = []")
  case True
  with assms show ?thesis by (simp add: match_rest_def)
next
  case False
  with assms show ?thesis by (simp add: match_rest_def butlast_append)
qed

lemma matched_address_None_iff:
  "matched_address s = None \<longleftrightarrow>
     s = [] \<or> \<not> is_host_char (hd s) \<or>
     (newline \<in> set s \<and> \<not> (last s = newline \<and> newline \<notin> set (butlast s)))"
proof (cases "s = [] \<or> \<not> is_host_char (hd s)")
  case True
  then have "takeWhile is_host_char s = []" by (cases s) auto
  then have "matched_address s = None" by (simp add: matched_address_eq)
  with True show ?thesis by blast
next
  case False
  then have h: "takeWhile is_host_char s \<noteq> []" using host_nonempty by blast
  obtain pre where pre: "s = pre @ snd (match_port (dropWhile is_host_char s))"
    and n: "newline \<notin> set pre"
    by (rule matched_prefix)
  have "matched_address s = None \<longleftrightarrow>
        match_rest (snd (match_port (dropWhile is_host_char s))) = None"
    using h by (simp add: matched_address_eq split: option.splits)
  also have "\<dots> \<longleftrightarrow> newline \<in> set s \<and> \<not> (last s = newline \<and> newline \<notin> set (butlast s))"
    using match_rest_append [OF n, of "snd (match_port (dropWhile is_host_char s))"] pre
    by simp
  finally show ?thesis using False by simp
qed

lemma matched_address_None_malformed: "matched_address s = None \<Longrightarrow> \<not> wellformed_address s"
  by (auto simp: matched_address_None_iff wellformed_address_iff)

section \<open>Facts about the calls\<close>

lemma io_return_apply: "io_return x s = (Inr x, s)"
  by (simp add: io_return_def)

lemma io_raise_apply: "io_raise e s = (Inl e, s)"
  by (simp add: io_raise_def)

lemma io_bind_Inl: "m s = (Inl e, s') \<Longrightarrow> io_bind m f s = (Inl e, s')"
  by (simp add: io_bind_def)

lemma io_bind_Inr: "m s = (Inr x, s') \<Longrightarrow> io_bind m f s = f x s'"
  by (simp add: io_bind_def)

lemma call_Inr: "f w = (Inr x, w') \<Longrightarrow> call ev f (tr, w) = (Inr x, (tr @ [ev], w'))"
  by (simp add: call_def)

lemma call_Inl:
  "f w = (Inl msg, w') \<Longrightarrow> call ev f (tr, w) = (Inl (LibraryError msg), (tr @ [ev], w'))"
  by (simp add: call_def)

lemma raise_SFTPFileException_apply:
  "raise_SFTPFileException s = (Inl (NameError ''SFTPFileException''), s)"
  by (simp add: raise_SFTPFileException_def io_raise_apply)

text \<open>An address the pattern rejects: no operation gets as far as the library.\<close>

lemma port_unmatched:
  "matched_address (iofile_file self) = None \<Longrightarrow> port self = Inl (AttributeError ''group'')"
  by (simp add: port_def)

lemma ftpc_enter_unmatched:
  assumes "matched_address (iofile_file self) = None"
  shows "\<exists>e. ftpc_enter L self s = (Inl e, s)"
proof (cases "provider self")
  case None
  then show ?thesis by (simp add: ftpc_enter_def io_raise_apply)
next
  case (Some pr)
  then show ?thesis
    by (simp add: ftpc_enter_def port_unmatched [OF assms] io_raise_apply)
qed

lemma with_ftpc_unmatched:
  assumes "matched_address (iofile_file self) = None"
  shows "\<exists>e. with_ftpc L self body s = (Inl e, s)"
proof -
  from ftpc_enter_unmatched [OF assms] obtain e where "ftpc_enter L self s = (Inl e, s)"
    by blast
  then have "with_ftpc L self body s = (Inl e, s)"
    unfolding with_ftpc_def by (rule io_bind_Inl)
  then show ?thesis by blast
qed

lemma exists_unmatched:
  "matched_address (iofile_file self) = None \<Longrightarrow>
   exists L self s = (Inl (NameError ''SFTPFileException''), s)"
  by (simp add: exists_def raise_SFTPFileException_apply)

lemma mtime_unmatched:
  "matched_address (iofile_file self) = None \<Longrightarrow>
   mtime L self s = (Inl (NameError ''SFTPFileException''), s)"
  unfolding mtime_def by (rule io_bind_Inl) (rule exists_unmatched)

lemma size_unmatched:
  "matched_address (iofile_file self) = None \<Longrightarrow>
   size_ftp L self s = (Inl (NameError ''SFTPFileException''), s)"
  unfolding size_ftp_def by (rule io_bind_Inl) (rule exists_unmatched)

lemma list_unmatched:
  "matched_address (iofile_file self) = None \<Longrightarrow>
   list_ftp L self s = (Inl (TypeError ''normpath''), s)"
  by (simp add: list_ftp_def remote_path_def path_remainder_def io_raise_apply)

text \<open>The merged dictionary and what the connection is asked with.\<close>

lemma kwargs_to_use_precedence:
  "kwargs_to_use self pr p = precedence (kwargs self) (provider_kwargs pr) (base_kwargs self p)"
  by (rule ext) (simp add: kwargs_to_use_def precedence_def map_add_def split: option.splits)

lemma base_kwargs_items:
  "base_kwargs self p ''host'' = Some (case host self of None \<Rightarrow> PyNone | Some h \<Rightarrow> PyStr h)"
  "base_kwargs self p ''username'' = Some PyNone"
  "base_kwargs self p ''password'' = Some PyNone"
  "base_kwargs self p ''port'' = Some (PyInt p)"
  "base_kwargs self p ''encrypt_data_channel'' = Some (encrypt_data_channel self)"
  by (simp_all add: base_kwargs_def)

lemma base_kwargs_dom:
  "base_kwargs self p k \<noteq> None \<longleftrightarrow>
     k \<in> {''host'', ''username'', ''password'', ''port'', ''encrypt_data_channel''}"
  by (auto simp add: base_kwargs_def)

lemma precedence_has: "defaults k \<noteq> None \<Longrightarrow> precedence per_file per_provider defaults k \<noteq> None"
  by (auto simp: precedence_def split: option.splits)

lemma getitem_Some: "d k = Some v \<Longrightarrow> getitem d k = Inr v"
  by (simp add: getitem_def)

lemma session_args_Inr:
  assumes "kw ''encrypt_data_channel'' = Some enc" "kw ''port'' = Some prt"
    "kw ''host'' = Some hst" "kw ''username'' = Some usr" "kw ''password'' = Some pwd"
  shows "session_args kw =
     Inr \<lparr>conn_host = hst, conn_username = usr, conn_password = pwd, conn_port = prt,
          conn_encrypt_data_channel = enc,
          conn_base_class = (if truthy enc then FTP_TLS else FTP)\<rparr>"
  using assms by (simp add: session_args_def getitem_Some)

lemma session_args_merged:
  obtains ca where "session_args (kwargs_to_use self pr p) = Inr ca"
    "kwargs_to_use self pr p ''host'' = Some (conn_host ca)"
    "kwargs_to_use self pr p ''username'' = Some (conn_username ca)"
    "kwargs_to_use self pr p ''password'' = Some (conn_password ca)"
    "kwargs_to_use self pr p ''port'' = Some (conn_port ca)"
    "kwargs_to_use self pr p ''encrypt_data_channel'' = Some (conn_encrypt_data_channel ca)"
    "conn_base_class ca = FTP_TLS \<longleftrightarrow> truthy (conn_encrypt_data_channel ca)"
proof -
  let ?kw = "kwargs_to_use self pr p"
  have has: "\<And>k. base_kwargs self p k \<noteq> None \<Longrightarrow> \<exists>v. ?kw k = Some v"
    using precedence_has [of "base_kwargs self p"] by (simp add: kwargs_to_use_precedence)
  obtain enc where enc: "?kw ''encrypt_data_channel'' = Some enc"
    using has [of "''encrypt_data_channel''"] by (auto simp: base_kwargs_items)
  obtain prt where prt: "?kw ''port'' = Some prt"
    using has [of "''port''"] by (auto simp: base_kwargs_items)
  obtain hst where hst: "?kw ''host'' = Some hst"
    using has [of "''host''"] by (auto simp: base_kwargs_items)
  obtain usr where usr: "?kw ''username'' = Some usr"
    using has [of "''username''"] by (auto simp: base_kwargs_items)
  obtain pwd where pwd: "?kw ''password'' = Some pwd"
    using has [of "''password''"] by (auto simp: base_kwargs_items)
  show ?thesis
    using that [OF session_args_Inr [OF enc prt hst usr pwd]] enc prt hst usr pwd by simp
qed

lemma ftpc_enter_connect:
  assumes "provider self = Some pr" "port self = Inr p"
    "session_args (kwargs_to_use self pr p) = Inr ca"
  shows "ftpc_enter L self (tr, w) =
     (case lib_connect L ca w of
        (Inl msg, w') \<Rightarrow> (Inl (LibraryError msg), (tr @ [Connect (next_conn tr) ca], w'))
      | (Inr u, w') \<Rightarrow> (Inr (next_conn tr), (tr @ [Connect (next_conn tr) ca], w')))"
  using assms
  by (simp add: ftpc_enter_def io_bind_def call_def io_return_def split: prod.splits sum.splits)

text \<open>The \<^verbatim>\<open>with\<close> block: \<^verbatim>\<open>close\<close> is called when the body returns, and only then.\<close>

lemma with_ftpc_returns:
  assumes "ftpc_enter L self s = (Inr c, s1)" "body c s1 = (Inr x, (tr2, w2))"
  shows "with_ftpc L self body s =
     (case lib_close L c w2 of
        (Inl msg, w3) \<Rightarrow> (Inl (LibraryError msg), (tr2 @ [Close c], w3))
      | (Inr u, w3) \<Rightarrow> (Inr x, (tr2 @ [Close c], w3)))"
  using assms
  by (simp add: with_ftpc_def io_bind_def ftpc_exit_def call_def io_return_def
      split: prod.splits sum.splits)

lemma with_ftpc_raises:
  assumes "ftpc_enter L self s = (Inr c, s1)" "body c s1 = (Inl e, s2)"
  shows "with_ftpc L self body s = (Inl e, s2)"
  using assms by (simp add: with_ftpc_def io_bind_def)


section \<open>Parsing an address and writing it back\<close>

lemma matched_example_port:
  "matched_address ''ftp.example.com:2121/pub/data.txt'' =
   Some \<lparr>group_host = ''ftp.example.com'', group_port = Some ''2121'',
         group_path_remainder = ''/pub/data.txt''\<rparr>"
  by (simp add: matched_address_def match_port_def match_rest_def is_host_char_def
      is_digit_def newline_def)

lemma matched_example_plain:
  "matched_address ''ftp.example.com/pub/data.txt'' =
   Some \<lparr>group_host = ''ftp.example.com'', group_port = None,
         group_path_remainder = ''/pub/data.txt''\<rparr>"
  by (simp add: matched_address_def match_port_def match_rest_def is_host_char_def
      is_digit_def newline_def)

lemma example_object_file: "iofile_file (example_object address) = address"
  by (simp add: example_object_def RemoteObject_def)

text \<open>
  Claim C4.  For every address of the grammar \<^verbatim>\<open>host[:port]path\<close>, the pattern matches; the
  host it yields is the longest leading run of host characters, the port group is the
  optional run of digits after a colon, and the path is all that remains, so that host,
  port segment and path concatenate to the address again; \<^verbatim>\<open>port\<close> is the number the
  digits spell and 21 when there are none; and the address written back from the host,
  the port number and the path parses to the same host, port and path.
\<close>

theorem address_parse_roundtrip:
  assumes "wellformed_address (iofile_file self)"
  shows "\<exists>h p r.
      matched_address (iofile_file self) =
        Some \<lparr>group_host = h, group_port = p, group_path_remainder = r\<rparr> \<and>
      h = takeWhile is_host_char (iofile_file self) \<and>
      address_grammar (iofile_file self) h p r \<and>
      host self = Some h \<and> path_remainder self = Some r \<and>
      port self = Inr (case p of None \<Rightarrow> 21 | Some ds \<Rightarrow> int_of_digits ds) \<and>
      (let again = self\<lparr>iofile_file := serialize_address h (nat (parsed_port p)) r\<rparr>
       in host again = Some h \<and> port again = port self \<and> path_remainder again = Some r)"
proof -
  let ?s = "iofile_file self"
  let ?h = "takeWhile is_host_char ?s"
  let ?p = "fst (match_port (dropWhile is_host_char ?s))"
  let ?r = "snd (match_port (dropWhile is_host_char ?s))"
  let ?m = "\<lparr>group_host = ?h, group_port = ?p, group_path_remainder = ?r\<rparr>"
  let ?again = "self\<lparr>iofile_file := serialize_address ?h (nat (parsed_port ?p)) ?r\<rparr>"
  let ?m' = "\<lparr>group_host = ?h, group_port = Some (decimal (nat (parsed_port ?p))),
               group_path_remainder = ?r\<rparr>"
  from assms have s: "?s \<noteq> []" "is_host_char (hd ?s)" "newline \<notin> set ?s"
    by (simp_all add: wellformed_address_iff)
  have m: "matched_address ?s = Some ?m"
    by (rule matched_address_no_newline [OF s])
  have h: "?h \<noteq> []" by (rule host_nonempty [OF s(1,2)])
  have hall: "list_all is_host_char ?h"
    unfolding list_all_iff using set_takeWhileD by fastforce
  have pg: "case ?p of None \<Rightarrow> True | Some ds \<Rightarrow> ds \<noteq> [] \<and> list_all is_digit ds"
    by (rule match_port_group)
  have "newline \<notin> set (dropWhile is_host_char ?s)"
    using s(3) set_dropWhileD by fastforce
  then have rn: "newline \<notin> set ?r" using rest_subset by blast
  have split: "?s = ?h @ port_segment ?p @ ?r"
    using match_port_segment [of "dropWhile is_host_char ?s"]
      takeWhile_dropWhile_id [of is_host_char ?s]
    by simp
  have g: "address_grammar ?s ?h ?p ?r"
    unfolding address_grammar_def using split h hall pg rn by blast
  have hst: "host self = Some ?h" and pth: "path_remainder self = Some ?r"
    by (simp_all add: host_def path_remainder_def m)
  have prt: "port self = Inr (parsed_port ?p)"
    using port_matched [OF m] pg by simp
  have m': "matched_address (iofile_file ?again) = Some ?m'"
    using matched_address_serialize [OF h hall rest_not_digit rn] by simp
  have dec: "parsed_port (Some (decimal (nat (parsed_port ?p)))) = parsed_port ?p"
    using parsed_port_nonneg [of ?p] by (simp add: parsed_port_def int_of_digits_decimal)
  have prt': "port ?again = port self"
    using port_matched [OF m'] decimal_nonempty decimal_digits dec prt by simp
  have hst': "host ?again = Some ?h" and pth': "path_remainder ?again = Some ?r"
    using m' by (simp_all add: host_def path_remainder_def)
  have "port self = Inr (case ?p of None \<Rightarrow> 21 | Some ds \<Rightarrow> int_of_digits ds)"
    using prt by (simp add: parsed_port_def)
  with m g hst pth hst' prt' pth' show ?thesis
    unfolding Let_def by blast
qed

theorem address_parse_roundtrip_witness:
  "wellformed_address (iofile_file (example_object ''ftp.example.com:2121/pub/data.txt'')) \<and>
   host (example_object ''ftp.example.com:2121/pub/data.txt'') = Some ''ftp.example.com'' \<and>
   port (example_object ''ftp.example.com:2121/pub/data.txt'') = Inr 2121 \<and>
   path_remainder (example_object ''ftp.example.com:2121/pub/data.txt'') = Some ''/pub/data.txt'' \<and>
   wellformed_address (iofile_file (example_object ''ftp.example.com/pub/data.txt'')) \<and>
   port (example_object ''ftp.example.com/pub/data.txt'') = Inr 21"
proof -
  let ?a = "example_object ''ftp.example.com:2121/pub/data.txt''"
  let ?b = "example_object ''ftp.example.com/pub/data.txt''"
  have wa: "wellformed_address (iofile_file ?a)"
    by (simp add: example_object_file wellformed_address_iff is_host_char_def newline_def)
  have wb: "wellformed_address (iofile_file ?b)"
    by (simp add: example_object_file wellformed_address_iff is_host_char_def newline_def)
  have "host ?a = Some ''ftp.example.com'' \<and> port ?a = Inr 2121 \<and>
        path_remainder ?a = Some ''/pub/data.txt''"
    using address_parse_roundtrip [OF wa]
    by (auto simp: example_object_file matched_example_port int_of_digits_def digit_val_def)
  moreover have "port ?b = Inr 21"
    using address_parse_roundtrip [OF wb]
    by (auto simp: example_object_file matched_example_plain)
  ultimately show ?thesis using wa wb by blast
qed

section \<open>Addresses the pattern rejects\<close>

lemma unmatched_example: "matched_address ''/pub/data.txt'' = None"
  by (simp add: matched_address_None_iff is_host_char_def)

text \<open>
  Claim C3, as the code has it.  When the pattern does not match the address (the
  address is then outside the grammar), nothing is raised by the match itself:
  \<^verbatim>\<open>host\<close>, \<^verbatim>\<open>path_remainder\<close> and \<^verbatim>\<open>remote_path\<close> are \<^verbatim>\<open>None\<close>.  Every operation raises, and
  does so before any call on the library: the calls recorded and the world are as they
  were, so no connection was attempted.
\<close>

theorem unmatched_address_no_connection:
  assumes "matched_address (iofile_file self) = None"
  shows "\<not> wellformed_address (iofile_file self) \<and>
    host self = None \<and> path_remainder self = None \<and> remote_path self = None \<and>
    (\<exists>e. exists L self s = (Inl e, s)) \<and>
    (\<exists>e. mtime L self s = (Inl e, s)) \<and>
    (\<exists>e. size_ftp L self s = (Inl e, s)) \<and>
    (\<exists>e. download L self make_dest_dirs s = (Inl e, s)) \<and>
    (\<exists>e. upload L self s = (Inl e, s)) \<and>
    (\<exists>e. list_ftp L self s = (Inl e, s))"
proof -
  have "\<not> wellformed_address (iofile_file self)"
    by (rule matched_address_None_malformed [OF assms])
  moreover have "host self = None" "path_remainder self = None" "remote_path self = None"
    using assms by (simp_all add: host_def path_remainder_def remote_path_def)
  moreover have "\<exists>e. exists L self s = (Inl e, s)"
    using exists_unmatched [OF assms] by blast
  moreover have "\<exists>e. mtime L self s = (Inl e, s)"
    using mtime_unmatched [OF assms] by blast
  moreover have "\<exists>e. size_ftp L self s = (Inl e, s)"
    using size_unmatched [OF assms] by blast
  moreover have "\<exists>e. download L self make_dest_dirs s = (Inl e, s)"
    unfolding download_def by (rule with_ftpc_unmatched [OF assms])
  moreover have "\<exists>e. upload L self s = (Inl e, s)"
    unfolding upload_def by (rule with_ftpc_unmatched [OF assms])
  moreover have "\<exists>e. list_ftp L self s = (Inl e, s)"
    using list_unmatched [OF assms] by blast
  ultimately show ?thesis by blast
qed

theorem unmatched_address_no_connection_witness:
  "matched_address (iofile_file (example_object ''/pub/data.txt'')) = None \<and>
   host (example_object ''/pub/data.txt'') = None \<and>
   (\<exists>e. download toy_library (example_object ''/pub/data.txt'') True ([], empty_world) =
          (Inl e, ([], empty_world))) \<and>
   (\<exists>e. list_ftp toy_library (example_object ''/pub/data.txt'') ([], empty_world) =
          (Inl e, ([], empty_world)))"
proof -
  have m: "matched_address (iofile_file (example_object ''/pub/data.txt'')) = None"
    by (simp add: example_object_file unmatched_example)
  show ?thesis
    using m unmatched_address_no_connection [OF m, of toy_library "([], empty_world)" True]
    by blast
qed

text \<open>
  Claim C3, as stated, asks for a typed parse error.  On the address
  \<^verbatim>\<open>/pub/data.txt\<close>, which has no host, the match returns \<^verbatim>\<open>None\<close> and raises nothing,
  \<^verbatim>\<open>host\<close> returns \<^verbatim>\<open>None\<close>, and \<^verbatim>\<open>port\<close> raises the interpreter's \<^verbatim>\<open>AttributeError\<close>.
\<close>

theorem unmatched_address_typed_error_counterexample:
  "matched_address ''/pub/data.txt'' = None \<and>
   host (example_object ''/pub/data.txt'') = None \<and>
   path_remainder (example_object ''/pub/data.txt'') = None \<and>
   port (example_object ''/pub/data.txt'') = Inl (AttributeError ''group'') \<and>
   (\<forall>msg. port (example_object ''/pub/data.txt'') \<noteq> Inl (FTPFileException msg))"
  by (simp add: host_def path_remainder_def port_def example_object_file unmatched_example)

section \<open>Running the operations on the small server\<close>

lemma toy_library_simps:
  "lib_connect toy_library ca w = (Inr (), w)"
  "lib_close toy_library c w = (Inr (), w)"
  "lib_path_exists toy_library c p w = (Inr (toy_remote w p \<noteq> None), w)"
  "lib_synchronize_times toy_library c w = (Inr (), w)"
  "lib_getmtime toy_library c p w =
     (case toy_remote w p of None \<Rightarrow> Inl ''550 no such file'' | Some b \<Rightarrow> Inr 0, w)"
  "lib_getsize toy_library c p w =
     (case toy_remote w p of None \<Rightarrow> Inl ''550 no such file'' | Some b \<Rightarrow> Inr (length b), w)"
  "os_path_exists toy_library d w = (Inr (d \<in> set (local_dirs w)), w)"
  "io_size_local toy_library f w =
     (case map_of (local_files w) f of None \<Rightarrow> Inl ''no such file'' | Some b \<Rightarrow> Inr (length b), w)"
  by (simp_all add: toy_library_def)

lemma toy_library_transfer_simps:
  "lib_download toy_library c p target w =
     (case toy_remote w p of
        None \<Rightarrow> (Inl ''550 no such file'', w)
      | Some b \<Rightarrow> (Inr (), w\<lparr>local_files := (target, b) # local_files w\<rparr>))"
  "lib_upload toy_library c source p w =
     (case (map_of (local_files w) source, p) of
        (Some b, Some q) \<Rightarrow> (Inr (), w\<lparr>remote_files := (q, b) # remote_files w\<rparr>)
      | _ \<Rightarrow> (Inl ''no such file'', w))"
  "lib_walk toy_library c d w =
     (Inr (filter (\<lambda>(dirpath, dirnames, filenames). take (length d) dirpath = d)
             (remote_tree w)), w)"
  "os_makedirs toy_library d w =
     (if d = [] \<or> d \<in> set (local_dirs w) then (Inl ''cannot create directory'', w)
      else (Inr (), w\<lparr>local_dirs := d # local_dirs w\<rparr>))"
  by (simp_all add: toy_library_def)

lemma example_properties:
  "host (example_object ''ftp.example.com/pub/data.txt'') = Some ''ftp.example.com''"
  "port (example_object ''ftp.example.com/pub/data.txt'') = Inr 21"
  "remote_path (example_object ''ftp.example.com/pub/data.txt'') = Some ''/pub/data.txt''"
  "local_path (example_object ''ftp.example.com/pub/data.txt'') = ''ftp.example.com/pub/data.txt''"
  "provider (example_object ''ftp.example.com/pub/data.txt'') = Some plain_provider"
  by (simp_all add: host_def port_def remote_path_def path_remainder_def local_path_def
      example_object_file matched_example_plain) (simp add: example_object_def RemoteObject_def)

lemma example_session_args:
  "session_args (kwargs_to_use (example_object ''ftp.example.com/pub/data.txt'') plain_provider 21) =
   Inr (anonymous_args ''ftp.example.com'' 21)"
proof -
  let ?kw = "kwargs_to_use (example_object ''ftp.example.com/pub/data.txt'') plain_provider 21"
  have k: "\<And>k. ?kw k = base_kwargs (example_object ''ftp.example.com/pub/data.txt'') 21 k"
    by (simp add: kwargs_to_use_def plain_provider_def example_object_def RemoteObject_def)
  have e: "encrypt_data_channel (example_object ''ftp.example.com/pub/data.txt'') = PyBool False"
    by (simp add: example_object_def RemoteObject_def)
  show ?thesis
    using session_args_Inr [of ?kw "PyBool False" "PyInt 21" "PyStr ''ftp.example.com''" PyNone PyNone]
    by (simp add: k base_kwargs_items example_properties e anonymous_args_def)
qed

lemma example_ftpc_enter:
  "ftpc_enter toy_library (example_object ''ftp.example.com/pub/data.txt'') (tr, w) =
   (Inr (next_conn tr), (tr @ [Connect (next_conn tr) (anonymous_args ''ftp.example.com'' 21)], w))"
  using ftpc_enter_connect [OF example_properties(5) example_properties(2) example_session_args,
      of toy_library tr w]
  by (simp add: toy_library_simps)

lemma example_exists:
  "exists toy_library (example_object ''ftp.example.com/pub/data.txt'') (tr, w) =
   (Inr (map_of (remote_files w) ''/pub/data.txt'' \<noteq> None),
    (tr @ [Connect (next_conn tr) (anonymous_args ''ftp.example.com'' 21),
           PathExists (next_conn tr) (Some ''/pub/data.txt''),
           Close (next_conn tr)], w))"
  by (simp add: exists_def example_object_file matched_example_plain with_ftpc_def io_bind_def
      example_ftpc_enter call_def ftpc_exit_def io_return_def toy_library_simps
      example_properties toy_remote_def)

section \<open>\<^verbatim>\<open>exists\<close>\<close>

lemma port_matched_total:
  "matched_address (iofile_file self) = Some m \<Longrightarrow> \<exists>p. port self = Inr p"
  by (simp add: port_def split: option.splits)

lemma ftpc_enter_Inr:
  assumes "ftpc_enter L self (tr, w) = (Inr c, s1)"
  shows "c = next_conn tr \<and>
    (\<exists>ca w1. s1 = (tr @ [Connect c ca], w1) \<and> lib_connect L ca w = (Inr (), w1))"
  using assms
  by (auto simp: ftpc_enter_def io_raise_def io_bind_def call_def io_return_def
      split: option.splits sum.splits prod.splits)

lemma exists_returns:
  assumes "matched_address (iofile_file self) \<noteq> None"
    "ftpc_enter L self s = (Inr c, (tr1, w1))"
    "lib_path_exists L c (remote_path self) w1 = (Inr b, w2)"
    "lib_close L c w2 = (Inr (), w3)"
  shows "exists L self s = (Inr b, (tr1 @ [PathExists c (remote_path self), Close c], w3))"
proof -
  let ?body = "\<lambda>ftpc. call (PathExists ftpc (remote_path self))
                        (lib_path_exists L ftpc (remote_path self))"
  have b: "?body c (tr1, w1) = (Inr b, (tr1 @ [PathExists c (remote_path self)], w2))"
    using assms(3) by (simp add: call_def)
  have "exists L self s = with_ftpc L self ?body s"
    using assms(1) by (auto simp: exists_def)
  also have "\<dots> = (Inr b, (tr1 @ [PathExists c (remote_path self), Close c], w3))"
    using with_ftpc_returns [of L self s c "(tr1, w1)" ?body, OF assms(2) b] assms(4) by simp
  finally show ?thesis .
qed

lemma with_ftpc_library_errors:
  assumes "provider self = Some pr" "matched_address (iofile_file self) = Some m"
    "\<And>c s e s'. body c s = (Inl e, s') \<Longrightarrow> \<exists>msg. e = LibraryError msg"
    "with_ftpc L self body s = (Inl e, s')"
  shows "\<exists>msg. e = LibraryError msg"
proof -
  obtain tr w where s: "s = (tr, w)" by (cases s)
  obtain p where p: "port self = Inr p"
    using port_matched_total [OF assms(2)] by blast
  obtain ca where ca: "session_args (kwargs_to_use self pr p) = Inr ca"
    by (rule session_args_merged)
  note enter = ftpc_enter_connect [OF assms(1) p ca, of L tr w]
  obtain r w1 where lc: "lib_connect L ca w = (r, w1)"
    by (cases "lib_connect L ca w")
  show ?thesis
  proof (cases r)
    case (Inl msg)
    with lc enter assms(4) s show ?thesis
      by (auto simp: with_ftpc_def io_bind_def)
  next
    case (Inr u)
    define c where "c = next_conn tr"
    define s1 where "s1 = (tr @ [Connect c ca], w1)"
    from Inr lc enter have en: "ftpc_enter L self s = (Inr c, s1)"
      by (simp add: s c_def s1_def)
    obtain rb s2 where bd: "body c s1 = (rb, s2)"
      by (cases "body c s1")
    show ?thesis
    proof (cases rb)
      case (Inl eb)
      with bd have b: "body c s1 = (Inl eb, s2)" by simp
      have "with_ftpc L self body s = (Inl eb, s2)"
        by (rule with_ftpc_raises [where body = body, OF en b])
      with assms(4) have "e = eb" by simp
      with assms(3) [OF b] show ?thesis by simp
    next
      case (Inr x)
      obtain tr2 w2 where s2: "s2 = (tr2, w2)" by (cases s2)
      from Inr bd s2 have b: "body c s1 = (Inr x, (tr2, w2))" by simp
      from with_ftpc_returns [where body = body, OF en b] assms(4) show ?thesis
        by (auto split: prod.splits sum.splits)
    qed
  qed
qed

lemma call_library_errors: "call ev f s = (Inl e, s') \<Longrightarrow> \<exists>msg. e = LibraryError msg"
  by (auto simp: call_def split: prod.splits sum.splits)

lemma exists_library_errors:
  assumes "provider self \<noteq> None" "matched_address (iofile_file self) \<noteq> None"
    "exists L self s = (Inl e, s')"
  shows "\<exists>msg. e = LibraryError msg"
proof -
  from assms(1,2) obtain pr m where pr: "provider self = Some pr"
    and m: "matched_address (iofile_file self) = Some m" by auto
  let ?body = "\<lambda>ftpc. call (PathExists ftpc (remote_path self))
                        (lib_path_exists L ftpc (remote_path self))"
  have "with_ftpc L self ?body s = (Inl e, s')"
    using assms(3) m by (simp add: exists_def)
  then show ?thesis
    using with_ftpc_library_errors [OF pr m, of ?body L s e s'] call_library_errors
    by blast
qed

text \<open>
  Claim C2, as the code has it.  When the pattern does not match the address, \<^verbatim>\<open>exists\<close>
  raises, and does so without a call on the library.  When it matches: given that the
  connection opens as \<open>c\<close>, that the one query \<^verbatim>\<open>path.exists\<close> answers \<open>b\<close> and that
  \<^verbatim>\<open>close\<close> returns, \<^verbatim>\<open>exists\<close> returns \<open>b\<close>, and the calls made are the connection, that
  query and the \<^verbatim>\<open>close\<close>; and on an object with a provider, whatever \<^verbatim>\<open>exists\<close> raises is
  an exception of the library.
\<close>

theorem exists_single_query:
  "(matched_address (iofile_file self) = None \<longrightarrow> (\<exists>e. exists L self s = (Inl e, s))) \<and>
   (matched_address (iofile_file self) \<noteq> None \<longrightarrow>
      (ftpc_enter L self s = (Inr c, (tr1, w1)) \<longrightarrow>
       lib_path_exists L c (remote_path self) w1 = (Inr b, w2) \<longrightarrow>
       lib_close L c w2 = (Inr (), w3) \<longrightarrow>
         (\<exists>ca. tr1 = fst s @ [Connect c ca]) \<and>
         exists L self s = (Inr b, (tr1 @ [PathExists c (remote_path self), Close c], w3))) \<and>
      (provider self \<noteq> None \<longrightarrow> exists L self s = (Inl e, s') \<longrightarrow>
         (\<exists>msg. e = LibraryError msg)))"
proof (intro conjI impI)
  assume "matched_address (iofile_file self) = None"
  then show "\<exists>e. exists L self s = (Inl e, s)"
    using exists_unmatched by blast
next
  assume "ftpc_enter L self s = (Inr c, (tr1, w1))"
  then show "\<exists>ca. tr1 = fst s @ [Connect c ca]"
    using ftpc_enter_Inr [of L self "fst s" "snd s" c "(tr1, w1)"] by auto
next
  assume "matched_address (iofile_file self) \<noteq> None"
    "ftpc_enter L self s = (Inr c, (tr1, w1))"
    "lib_path_exists L c (remote_path self) w1 = (Inr b, w2)"
    "lib_close L c w2 = (Inr (), w3)"
  then show "exists L self s = (Inr b, (tr1 @ [PathExists c (remote_path self), Close c], w3))"
    by (rule exists_returns)
next
  assume "provider self \<noteq> None" "matched_address (iofile_file self) \<noteq> None"
    "exists L self s = (Inl e, s')"
  then show "\<exists>msg. e = LibraryError msg"
    by (rule exists_library_errors)
qed

theorem exists_single_query_witness:
  "matched_address (iofile_file (example_object ''/pub/data.txt'')) = None \<and>
   (\<exists>e. exists toy_library (example_object ''/pub/data.txt'') ([], empty_world) =
          (Inl e, ([], empty_world))) \<and>
   matched_address (iofile_file (example_object ''ftp.example.com/pub/data.txt'')) \<noteq> None \<and>
   ftpc_enter toy_library (example_object ''ftp.example.com/pub/data.txt'') ([], empty_world) =
     (Inr 0, ([Connect 0 (anonymous_args ''ftp.example.com'' 21)], empty_world)) \<and>
   lib_path_exists toy_library 0
       (remote_path (example_object ''ftp.example.com/pub/data.txt'')) empty_world =
     (Inr False, empty_world) \<and>
   lib_close toy_library 0 empty_world = (Inr (), empty_world) \<and>
   exists toy_library (example_object ''ftp.example.com/pub/data.txt'') ([], empty_world) =
     (Inr False,
      ([Connect 0 (anonymous_args ''ftp.example.com'' 21), PathExists 0 (Some ''/pub/data.txt''),
        Close 0], empty_world))"
proof -
  let ?bad = "example_object ''/pub/data.txt''"
  let ?good = "example_object ''ftp.example.com/pub/data.txt''"
  have m: "matched_address (iofile_file ?bad) = None"
    by (simp add: example_object_file unmatched_example)
  have g: "matched_address (iofile_file ?good) \<noteq> None"
    by (simp add: example_object_file matched_example_plain)
  have en: "ftpc_enter toy_library ?good ([], empty_world) =
      (Inr 0, ([Connect 0 (anonymous_args ''ftp.example.com'' 21)], empty_world))"
    by (simp add: example_ftpc_enter next_conn_def)
  have q: "lib_path_exists toy_library 0 (remote_path ?good) empty_world = (Inr False, empty_world)"
    by (simp add: toy_library_simps toy_remote_def example_properties empty_world_def)
  have c: "lib_close toy_library 0 empty_world = (Inr (), empty_world)"
    by (simp add: toy_library_simps)
  have "\<exists>e. exists toy_library ?bad ([], empty_world) = (Inl e, ([], empty_world))"
    using exists_single_query [of ?bad toy_library "([], empty_world)"] m by blast
  moreover have "exists toy_library ?good ([], empty_world) =
      (Inr False,
       ([Connect 0 (anonymous_args ''ftp.example.com'' 21), PathExists 0 (Some ''/pub/data.txt''),
         Close 0], empty_world))"
    using exists_single_query [of ?good toy_library "([], empty_world)" 0
        "[Connect 0 (anonymous_args ''ftp.example.com'' 21)]" empty_world False empty_world
        empty_world] g en q c
    by (simp add: example_properties)
  ultimately show ?thesis using m g en q c by blast
qed

text \<open>
  Claim C2, as stated, has \<^verbatim>\<open>exists\<close> return false when the address does not resolve.  On
  the address \<^verbatim>\<open>/pub/data.txt\<close> it raises instead (and calls nothing).
\<close>

theorem exists_returns_false_counterexample:
  "fst (exists toy_library (example_object ''/pub/data.txt'') ([], empty_world)) \<noteq> Inr False \<and>
   exists toy_library (example_object ''/pub/data.txt'') ([], empty_world) =
     (Inl (NameError ''SFTPFileException''), ([], empty_world))"
  by (simp add: exists_unmatched example_object_file unmatched_example)

section \<open>The branches that raise \<^verbatim>\<open>SFTPFileException\<close>\<close>

lemma mtime_missing:
  "exists L self s = (Inr False, s1) \<Longrightarrow>
   mtime L self s = (Inl (NameError ''SFTPFileException''), s1)"
  by (simp add: mtime_def io_bind_def raise_SFTPFileException_apply)

lemma download_missing:
  assumes "ftpc_enter L self s = (Inr c, s2)" "exists L self s2 = (Inr False, s3)"
  shows "download L self make_dest_dirs s = (Inl (NameError ''SFTPFileException''), s3)"
  using assms
  by (simp add: download_def with_ftpc_def io_bind_def raise_SFTPFileException_apply)

text \<open>No operation raises \<^verbatim>\<open>FTPFileException\<close>, the exception class the module imports.\<close>

lemma bind_never_FTPFileException:
  assumes "\<And>s. fst (m s) \<noteq> Inl (FTPFileException msg)"
    "\<And>x s. fst (f x s) \<noteq> Inl (FTPFileException msg)"
  shows "fst (io_bind m f s) \<noteq> Inl (FTPFileException msg)"
proof -
  obtain r s' where ms: "m s = (r, s')" by (cases "m s")
  show ?thesis
  proof (cases r)
    case (Inl e)
    with ms assms(1) [of s] show ?thesis by (simp add: io_bind_def)
  next
    case (Inr x)
    with ms assms(2) [of x s'] show ?thesis by (simp add: io_bind_def)
  qed
qed

lemma call_never_FTPFileException: "fst (call ev f s) \<noteq> Inl (FTPFileException msg)"
  by (auto simp: call_def split: prod.splits sum.splits)

lemma return_never_FTPFileException: "fst (io_return x s) \<noteq> Inl (FTPFileException msg)"
  by (simp add: io_return_def)

lemma raise_never_FTPFileException:
  "fst (raise_SFTPFileException s) \<noteq> Inl (FTPFileException msg)"
  by (simp add: raise_SFTPFileException_apply)

lemma ftpc_enter_never_FTPFileException:
  "fst (ftpc_enter L self s) \<noteq> Inl (FTPFileException msg)"
proof (cases "provider self")
  case None
  then show ?thesis by (simp add: ftpc_enter_def io_raise_def)
next
  case (Some pr)
  show ?thesis
  proof (cases "port self")
    case (Inl e)
    then have "e = AttributeError ''group''"
      by (auto simp: port_def split: option.splits if_splits)
    with Some Inl show ?thesis by (simp add: ftpc_enter_def io_raise_def)
  next
    case (Inr p)
    obtain ca where ca: "session_args (kwargs_to_use self pr p) = Inr ca"
      by (rule session_args_merged)
    obtain tr w where s: "s = (tr, w)" by (cases s)
    show ?thesis
      using ftpc_enter_connect [OF Some Inr ca, of L tr w]
      by (auto simp: s split: prod.splits sum.splits)
  qed
qed

lemma with_ftpc_never_FTPFileException:
  assumes "\<And>c s. fst (body c s) \<noteq> Inl (FTPFileException msg)"
  shows "fst (with_ftpc L self body s) \<noteq> Inl (FTPFileException msg)"
  unfolding with_ftpc_def ftpc_exit_def
  by (intro bind_never_FTPFileException ftpc_enter_never_FTPFileException assms
      call_never_FTPFileException return_never_FTPFileException)

lemma exists_never_FTPFileException: "fst (exists L self s) \<noteq> Inl (FTPFileException msg)"
proof (cases "matched_address (iofile_file self)")
  case None
  then show ?thesis by (simp add: exists_unmatched)
next
  case (Some m)
  then show ?thesis
    by (simp add: exists_def with_ftpc_never_FTPFileException call_never_FTPFileException)
qed

lemma mtime_never_FTPFileException: "fst (mtime L self s) \<noteq> Inl (FTPFileException msg)"
  unfolding mtime_def
proof (rule bind_never_FTPFileException)
  fix found s
  show "fst ((if found
              then with_ftpc L self (\<lambda>ftpc.
                     io_bind (call (SynchronizeTimes ftpc) (lib_synchronize_times L ftpc)) (\<lambda>_.
                     call (GetMtime ftpc (remote_path self))
                       (lib_getmtime L ftpc (remote_path self))))
              else raise_SFTPFileException) s) \<noteq> Inl (FTPFileException msg)"
    by (cases found)
      (simp_all add: raise_never_FTPFileException with_ftpc_never_FTPFileException
        bind_never_FTPFileException call_never_FTPFileException)
qed (rule exists_never_FTPFileException)

lemma download_body_never_FTPFileException:
  "fst ((if found then
           io_bind (call (OsPathExists d) (os_path_exists L d)) (\<lambda>present.
           io_bind (if \<not> present \<and> make_dest_dirs
                    then call (OsMakedirs d) (os_makedirs L d)
                    else io_return ()) (\<lambda>_.
           io_bind (call (SynchronizeTimes ftpc) (lib_synchronize_times L ftpc)) (\<lambda>_.
           call (Download ftpc rp lp) (lib_download L ftpc rp lp))))
         else raise_SFTPFileException) s) \<noteq> Inl (FTPFileException msg)"
proof (cases found)
  case True
  have "\<And>present s. fst ((if \<not> present \<and> make_dest_dirs
                    then call (OsMakedirs d) (os_makedirs L d)
                    else io_return ()) s) \<noteq> Inl (FTPFileException msg)"
    by (simp add: call_never_FTPFileException return_never_FTPFileException)
  with True show ?thesis
    by (simp add: bind_never_FTPFileException call_never_FTPFileException)
next
  case False
  then show ?thesis by (simp add: raise_never_FTPFileException)
qed

lemma download_never_FTPFileException:
  "fst (download L self make_dest_dirs s) \<noteq> Inl (FTPFileException msg)"
  unfolding download_def
  by (intro with_ftpc_never_FTPFileException bind_never_FTPFileException
      exists_never_FTPFileException download_body_never_FTPFileException)

lemma next_conn_simps:
  "next_conn [] = 0"
  "next_conn (tr @ [Connect c ca]) = Suc (next_conn tr)"
  "next_conn (tr @ [Close c]) = next_conn tr"
  "next_conn (tr @ [PathExists c p]) = next_conn tr"
  by (simp_all add: next_conn_def)

lemma example_exists_missing:
  "exists toy_library (example_object ''ftp.example.com/pub/data.txt'') ([], empty_world) =
   (Inr False,
    ([Connect 0 (anonymous_args ''ftp.example.com'' 21), PathExists 0 (Some ''/pub/data.txt''),
      Close 0], empty_world))"
  by (simp add: example_exists next_conn_simps empty_world_def)

lemma example_exists_nested:
  "exists toy_library (example_object ''ftp.example.com/pub/data.txt'')
     ([Connect 0 (anonymous_args ''ftp.example.com'' 21)], empty_world) =
   (Inr False,
    ([Connect 0 (anonymous_args ''ftp.example.com'' 21),
      Connect 1 (anonymous_args ''ftp.example.com'' 21), PathExists 1 (Some ''/pub/data.txt''),
      Close 1], empty_world))"
  by (simp add: example_exists next_conn_def empty_world_def)

lemma example_ftpc_enter_first:
  "ftpc_enter toy_library (example_object ''ftp.example.com/pub/data.txt'') ([], empty_world) =
   (Inr 0, ([Connect 0 (anonymous_args ''ftp.example.com'' 21)], empty_world))"
  by (simp add: example_ftpc_enter next_conn_simps)

text \<open>
  Claim C10.  Each of the three branches that mean to raise the module's exception names
  \<^verbatim>\<open>SFTPFileException\<close>, which is not bound, and so raises \<^verbatim>\<open>NameError\<close>: \<^verbatim>\<open>exists\<close> when
  the pattern does not match the address, \<^verbatim>\<open>mtime\<close> when \<^verbatim>\<open>exists\<close> returns false, and
  \<^verbatim>\<open>download\<close> when, its connection open, \<^verbatim>\<open>exists\<close> returns false.  None of the three
  operations ever raises \<^verbatim>\<open>FTPFileException\<close>, the class the module imports.
\<close>

theorem error_paths_raise_NameError:
  "(matched_address (iofile_file self) = None \<longrightarrow>
      exists L self s = (Inl (NameError ''SFTPFileException''), s)) \<and>
   (exists L self s = (Inr False, s1) \<longrightarrow>
      mtime L self s = (Inl (NameError ''SFTPFileException''), s1)) \<and>
   (ftpc_enter L self s = (Inr c, s2) \<longrightarrow> exists L self s2 = (Inr False, s3) \<longrightarrow>
      download L self make_dest_dirs s = (Inl (NameError ''SFTPFileException''), s3)) \<and>
   fst (exists L self s) \<noteq> Inl (FTPFileException msg) \<and>
   fst (mtime L self s) \<noteq> Inl (FTPFileException msg) \<and>
   fst (download L self make_dest_dirs s) \<noteq> Inl (FTPFileException msg)"
  using exists_unmatched [of self L s] mtime_missing [of L self s s1]
    download_missing [of L self s c s2 s3 make_dest_dirs]
    exists_never_FTPFileException [of L self s msg]
    mtime_never_FTPFileException [of L self s msg]
    download_never_FTPFileException [of L self make_dest_dirs s msg]
  by blast

theorem error_paths_raise_NameError_witness:
  "matched_address (iofile_file (example_object ''/pub/data.txt'')) = None \<and>
   exists toy_library (example_object ''/pub/data.txt'') ([], empty_world) =
     (Inl (NameError ''SFTPFileException''), ([], empty_world)) \<and>
   exists toy_library (example_object ''ftp.example.com/pub/data.txt'') ([], empty_world) =
     (Inr False,
      ([Connect 0 (anonymous_args ''ftp.example.com'' 21), PathExists 0 (Some ''/pub/data.txt''),
        Close 0], empty_world)) \<and>
   mtime toy_library (example_object ''ftp.example.com/pub/data.txt'') ([], empty_world) =
     (Inl (NameError ''SFTPFileException''),
      ([Connect 0 (anonymous_args ''ftp.example.com'' 21), PathExists 0 (Some ''/pub/data.txt''),
        Close 0], empty_world)) \<and>
   ftpc_enter toy_library (example_object ''ftp.example.com/pub/data.txt'') ([], empty_world) =
     (Inr 0, ([Connect 0 (anonymous_args ''ftp.example.com'' 21)], empty_world)) \<and>
   (\<exists>s3. exists toy_library (example_object ''ftp.example.com/pub/data.txt'')
           ([Connect 0 (anonymous_args ''ftp.example.com'' 21)], empty_world) = (Inr False, s3) \<and>
         download toy_library (example_object ''ftp.example.com/pub/data.txt'') False
           ([], empty_world) = (Inl (NameError ''SFTPFileException''), s3))"
proof -
  let ?bad = "example_object ''/pub/data.txt''"
  let ?good = "example_object ''ftp.example.com/pub/data.txt''"
  let ?a = "anonymous_args ''ftp.example.com'' 21"
  let ?s1 = "([Connect 0 ?a, PathExists 0 (Some ''/pub/data.txt''), Close 0], empty_world)"
  let ?s2 = "([Connect 0 ?a], empty_world)"
  let ?s3 = "([Connect 0 ?a, Connect 1 ?a, PathExists 1 (Some ''/pub/data.txt''), Close 1],
              empty_world)"
  have m: "matched_address (iofile_file ?bad) = None"
    by (simp add: example_object_file unmatched_example)
  note ex = example_exists_missing
  note en = example_ftpc_enter_first
  note nested = example_exists_nested
  have a: "exists toy_library ?bad ([], empty_world) =
      (Inl (NameError ''SFTPFileException''), ([], empty_world))"
    using error_paths_raise_NameError [of ?bad toy_library "([], empty_world)"] m by blast
  have b: "mtime toy_library ?good ([], empty_world) = (Inl (NameError ''SFTPFileException''), ?s1)"
    using error_paths_raise_NameError [of ?good toy_library "([], empty_world)" ?s1] ex by blast
  have c: "download toy_library ?good False ([], empty_world) =
      (Inl (NameError ''SFTPFileException''), ?s3)"
    using error_paths_raise_NameError [of ?good toy_library "([], empty_world)" _ 0 ?s2 ?s3 False]
      en nested by blast
  from m a ex b en nested c show ?thesis by blast
qed

section \<open>The connection when the block raises\<close>

lemma example_upload_no_local_file:
  "upload toy_library (example_object ''ftp.example.com/pub/data.txt'') ([], empty_world) =
   (Inl (LibraryError ''no such file''),
    ([Connect 0 (anonymous_args ''ftp.example.com'' 21), SynchronizeTimes 0,
      Upload 0 ''ftp.example.com/pub/data.txt'' (Some ''/pub/data.txt'')], empty_world))"
  by (simp add: upload_def with_ftpc_def io_bind_def example_ftpc_enter next_conn_simps call_def
      toy_library_simps toy_library_transfer_simps example_properties empty_world_def)

text \<open>
  Claim C1 against the code.  A block that returns has its connection closed: \<^verbatim>\<open>exists\<close>
  on the small server ends with \<^verbatim>\<open>Close 0\<close>.  A block that raises has not: \<^verbatim>\<open>upload\<close> with
  no local file raises inside the block, and the calls made end with the failed transfer;
  connection 0 is never closed.
\<close>

theorem connection_left_open_when_block_raises:
  "exists toy_library (example_object ''ftp.example.com/pub/data.txt'') ([], empty_world) =
     (Inr False,
      ([Connect 0 (anonymous_args ''ftp.example.com'' 21), PathExists 0 (Some ''/pub/data.txt''),
        Close 0], empty_world)) \<and>
   upload toy_library (example_object ''ftp.example.com/pub/data.txt'') ([], empty_world) =
     (Inl (LibraryError ''no such file''),
      ([Connect 0 (anonymous_args ''ftp.example.com'' 21), SynchronizeTimes 0,
        Upload 0 ''ftp.example.com/pub/data.txt'' (Some ''/pub/data.txt'')], empty_world)) \<and>
   Close 0 \<notin> set (fst (snd (upload toy_library
       (example_object ''ftp.example.com/pub/data.txt'') ([], empty_world))))"
  by (simp add: example_exists_missing example_upload_no_local_file)

section \<open>\<^verbatim>\<open>mtime\<close>\<close>

text \<open>When the file exists: the clocks are synchronised, then the time is read.\<close>

lemma mtime_returns:
  assumes "exists L self s = (Inr True, s1)"
    "ftpc_enter L self s1 = (Inr c, (tr2, w2))"
    "lib_synchronize_times L c w2 = (Inr (), w3)"
    "lib_getmtime L c (remote_path self) w3 = (Inr t, w4)"
    "lib_close L c w4 = (Inr (), w5)"
  shows "mtime L self s =
     (Inr t, (tr2 @ [SynchronizeTimes c, GetMtime c (remote_path self), Close c], w5))"
proof -
  let ?body = "\<lambda>ftpc.
      io_bind (call (SynchronizeTimes ftpc) (lib_synchronize_times L ftpc)) (\<lambda>_.
      call (GetMtime ftpc (remote_path self)) (lib_getmtime L ftpc (remote_path self)))"
  have b: "?body c (tr2, w2) =
      (Inr t, (tr2 @ [SynchronizeTimes c, GetMtime c (remote_path self)], w4))"
    using assms(3,4) by (simp add: io_bind_def call_def)
  have "mtime L self s = with_ftpc L self ?body s1"
    using assms(1) by (simp add: mtime_def io_bind_def)
  also have "\<dots> = (Inr t, (tr2 @ [SynchronizeTimes c, GetMtime c (remote_path self), Close c], w5))"
    using with_ftpc_returns [where body = ?body, OF assms(2) b] assms(5) by simp
  finally show ?thesis .
qed

lemma example_world_exists:
  "exists toy_library (example_object ''ftp.example.com/pub/data.txt'') (tr, example_world) =
   (Inr True,
    (tr @ [Connect (next_conn tr) (anonymous_args ''ftp.example.com'' 21),
           PathExists (next_conn tr) (Some ''/pub/data.txt''),
           Close (next_conn tr)], example_world))"
  by (simp add: example_exists example_world_def)

lemma example_mtime_present:
  "mtime toy_library (example_object ''ftp.example.com/pub/data.txt'') ([], example_world) =
   (Inr 0,
    ([Connect 0 (anonymous_args ''ftp.example.com'' 21), PathExists 0 (Some ''/pub/data.txt''),
      Close 0,
      Connect 1 (anonymous_args ''ftp.example.com'' 21), SynchronizeTimes 1,
      GetMtime 1 (Some ''/pub/data.txt''), Close 1], example_world))"
proof -
  let ?o = "example_object ''ftp.example.com/pub/data.txt''"
  let ?a = "anonymous_args ''ftp.example.com'' 21"
  let ?tr = "[Connect 0 ?a, PathExists 0 (Some ''/pub/data.txt''), Close 0]"
  have ex: "exists toy_library ?o ([], example_world) = (Inr True, (?tr, example_world))"
    by (simp add: example_world_exists next_conn_simps)
  have en: "ftpc_enter toy_library ?o (?tr, example_world) =
      (Inr 1, (?tr @ [Connect 1 ?a], example_world))"
    by (simp add: example_ftpc_enter next_conn_def)
  have sy: "lib_synchronize_times toy_library 1 example_world = (Inr (), example_world)"
    by (simp add: toy_library_simps)
  have gm: "lib_getmtime toy_library 1 (remote_path ?o) example_world = (Inr 0, example_world)"
    by (simp add: toy_library_simps toy_remote_def example_properties example_world_def)
  have cl: "lib_close toy_library 1 example_world = (Inr (), example_world)"
    by (simp add: toy_library_simps)
  show ?thesis
    using mtime_returns [OF ex en sy gm cl] by (simp add: example_properties)
qed

text \<open>
  Claim C5 against the code.  On the small server without the file, \<^verbatim>\<open>mtime\<close> raises
  \<^verbatim>\<open>NameError\<close>, not the module's exception for a missing remote file.  With the file, it
  synchronises the clocks on its second connection before it reads the time there.
\<close>

theorem mtime_missing_raises_NameError:
  "mtime toy_library (example_object ''ftp.example.com/pub/data.txt'') ([], empty_world) =
     (Inl (NameError ''SFTPFileException''),
      ([Connect 0 (anonymous_args ''ftp.example.com'' 21), PathExists 0 (Some ''/pub/data.txt''),
        Close 0], empty_world)) \<and>
   (\<forall>msg. fst (mtime toy_library (example_object ''ftp.example.com/pub/data.txt'')
                 ([], empty_world)) \<noteq> Inl (FTPFileException msg)) \<and>
   mtime toy_library (example_object ''ftp.example.com/pub/data.txt'') ([], example_world) =
     (Inr 0,
      ([Connect 0 (anonymous_args ''ftp.example.com'' 21), PathExists 0 (Some ''/pub/data.txt''),
        Close 0,
        Connect 1 (anonymous_args ''ftp.example.com'' 21), SynchronizeTimes 1,
        GetMtime 1 (Some ''/pub/data.txt''), Close 1], example_world))"
  using mtime_missing [OF example_exists_missing] example_mtime_present
  by simp

section \<open>\<^verbatim>\<open>download\<close>\<close>

text \<open>
  When the remote file exists and the calls succeed: the parent directory of the local
  path is looked up, created only if it is absent and \<^verbatim>\<open>make_dest_dirs\<close> is set, then the
  clocks are synchronised and the file is transferred.
\<close>

lemma download_returns:
  assumes "ftpc_enter L self s = (Inr c, s2)"
    "exists L self s2 = (Inr True, (tr3, w3))"
    "os_path_exists L (dirname (local_path self)) w3 = (Inr present, w4)"
    "if \<not> present \<and> make_dest_dirs
     then os_makedirs L (dirname (local_path self)) w4 = (Inr (), w5) else w5 = w4"
    "lib_synchronize_times L c w5 = (Inr (), w6)"
    "lib_download L c (remote_path self) (local_path self) w6 = (Inr (), w7)"
    "lib_close L c w7 = (Inr (), w8)"
  shows "download L self make_dest_dirs s =
     (Inr (),
      (tr3 @ [OsPathExists (dirname (local_path self))] @
       (if \<not> present \<and> make_dest_dirs then [OsMakedirs (dirname (local_path self))] else []) @
       [SynchronizeTimes c, Download c (remote_path self) (local_path self), Close c], w8))"
proof -
  let ?d = "dirname (local_path self)"
  let ?body = "\<lambda>ftpc.
       io_bind (exists L self) (\<lambda>found.
         if found then
           io_bind (call (OsPathExists ?d) (os_path_exists L ?d)) (\<lambda>present.
           io_bind (if \<not> present \<and> make_dest_dirs
                    then call (OsMakedirs ?d) (os_makedirs L ?d)
                    else io_return ()) (\<lambda>_.
           io_bind (call (SynchronizeTimes ftpc) (lib_synchronize_times L ftpc)) (\<lambda>_.
           call (Download ftpc (remote_path self) (local_path self))
             (lib_download L ftpc (remote_path self) (local_path self)))))
         else raise_SFTPFileException)"
  let ?tr = "tr3 @ [OsPathExists ?d] @
       (if \<not> present \<and> make_dest_dirs then [OsMakedirs ?d] else []) @
       [SynchronizeTimes c, Download c (remote_path self) (local_path self)]"
  have b: "?body c s2 = (Inr (), (?tr, w7))"
  proof (cases "\<not> present \<and> make_dest_dirs")
    case True
    with assms(4) have mk: "os_makedirs L ?d w4 = (Inr (), w5)" by simp
    show ?thesis
      using True assms(2,3,5,6) mk by (simp add: io_bind_def call_def)
  next
    case False
    with assms(4) have "w5 = w4" by simp
    then show ?thesis
      using False assms(2,3,5,6) by (auto simp: io_bind_def call_def io_return_def)
  qed
  have "download L self make_dest_dirs s = with_ftpc L self ?body s"
    by (simp add: download_def)
  also have "\<dots> = (Inr (), (?tr @ [Close c], w8))"
    using with_ftpc_returns [where body = ?body, OF assms(1) b] assms(7) by simp
  finally show ?thesis by simp
qed

lemma example_download_missing:
  "download toy_library (example_object ''ftp.example.com/pub/data.txt'') True ([], empty_world) =
   (Inl (NameError ''SFTPFileException''),
    ([Connect 0 (anonymous_args ''ftp.example.com'' 21),
      Connect 1 (anonymous_args ''ftp.example.com'' 21), PathExists 1 (Some ''/pub/data.txt''),
      Close 1], empty_world))"
  by (rule download_missing [OF example_ftpc_enter_first example_exists_nested])

text \<open>
  Claim C7 against the code.  On the small server without the file,
  \<^verbatim>\<open>download(make_dest_dirs=True)\<close> raises \<^verbatim>\<open>NameError\<close>, not the module's exception for a
  missing remote file (and leaves its own connection, 0, open).
\<close>

theorem download_missing_raises_NameError:
  "download toy_library (example_object ''ftp.example.com/pub/data.txt'') True ([], empty_world) =
     (Inl (NameError ''SFTPFileException''),
      ([Connect 0 (anonymous_args ''ftp.example.com'' 21),
        Connect 1 (anonymous_args ''ftp.example.com'' 21), PathExists 1 (Some ''/pub/data.txt''),
        Close 1], empty_world)) \<and>
   (\<forall>msg. fst (download toy_library (example_object ''ftp.example.com/pub/data.txt'') True
                 ([], empty_world)) \<noteq> Inl (FTPFileException msg))"
  by (simp add: example_download_missing)

section \<open>\<^verbatim>\<open>size\<close>\<close>
















section \<open>\<^verbatim>\<open>list\<close>\<close>




















lemma matched_example_wildcard:
  "matched_address ''ftp.example.com/data/{sample}.txt'' =
   Some \<lparr>group_host = ''ftp.example.com'', group_port = None,
         group_path_remainder = ''/data/{sample}.txt''\<rparr>"
  by (simp add: matched_address_def match_port_def match_rest_def is_host_char_def
      is_digit_def newline_def)

lemma wildcard_properties:
  "port (example_object ''ftp.example.com/data/{sample}.txt'') = Inr 21"
  "remote_path (example_object ''ftp.example.com/data/{sample}.txt'') = Some ''/data/{sample}.txt''"
  "provider (example_object ''ftp.example.com/data/{sample}.txt'') = Some plain_provider"
  "host (example_object ''ftp.example.com/data/{sample}.txt'') = Some ''ftp.example.com''"
  by (simp_all add: host_def port_def remote_path_def path_remainder_def
      example_object_file matched_example_wildcard) (simp add: example_object_def RemoteObject_def)





lemma wildcard_session_args:
  "session_args (kwargs_to_use (example_object ''ftp.example.com/data/{sample}.txt'')
      plain_provider 21) = Inr (anonymous_args ''ftp.example.com'' 21)"
proof -
  let ?o = "example_object ''ftp.example.com/data/{sample}.txt''"
  let ?kw = "kwargs_to_use ?o plain_provider 21"
  have k: "\<And>k. ?kw k = base_kwargs ?o 21 k"
    by (simp add: kwargs_to_use_def plain_provider_def example_object_def RemoteObject_def)
  have e: "encrypt_data_channel ?o = PyBool False"
    by (simp add: example_object_def RemoteObject_def)
  show ?thesis
    using session_args_Inr [of ?kw "PyBool False" "PyInt 21" "PyStr ''ftp.example.com''" PyNone PyNone]
    by (simp add: k base_kwargs_items wildcard_properties e anonymous_args_def)
qed










section \<open>The merged connection settings\<close>

text \<open>
  For the keys of \<^verbatim>\<open>self.kwargs\<close> and \<^verbatim>\<open>self.provider.kwargs\<close> the dictionary follows the
  precedence of the specification (\<open>kwargs_to_use_precedence\<close>), the five settings are
  always present, and the base class is \<^verbatim>\<open>FTP_TLS\<close> exactly when the merged
  \<^verbatim>\<open>encrypt_data_channel\<close> is true (\<open>session_args_merged\<close>).  The lowest layer is not a
  table of constants: it holds the object's own host, port and \<^verbatim>\<open>encrypt_data_channel\<close>.
\<close>

lemma address_properties:
  assumes "iofile_file self = ''ftp.example.com/pub/data.txt''"
  shows "host self = Some ''ftp.example.com''" and "port self = Inr 21"
  using assms by (simp_all add: host_def port_def matched_example_plain)

lemma encrypted_file_object_fields:
  "iofile_file encrypted_file_object = ''ftp.example.com/pub/data.txt''"
  "provider encrypted_file_object = Some unencrypted_provider"
  "encrypt_data_channel encrypted_file_object = PyBool True"
  "kwargs encrypted_file_object = Map.empty"
  by (simp_all add: encrypted_file_object_def RemoteObject_def)

lemma encrypted_file_session_args:
  "session_args (kwargs_to_use encrypted_file_object unencrypted_provider 21) =
   Inr (anonymous_args ''ftp.example.com'' 21)"
proof -
  let ?kw = "kwargs_to_use encrypted_file_object unencrypted_provider 21"
  note h = address_properties(1) [OF encrypted_file_object_fields(1)]
  have "?kw ''encrypt_data_channel'' = Some (PyBool False)" "?kw ''port'' = Some (PyInt 21)"
    "?kw ''host'' = Some (PyStr ''ftp.example.com'')" "?kw ''username'' = Some PyNone"
    "?kw ''password'' = Some PyNone"
    by (simp_all add: kwargs_to_use_precedence precedence_def encrypted_file_object_fields
        unencrypted_provider_def base_kwargs_items h)
  then show ?thesis
    using session_args_Inr [of ?kw "PyBool False" "PyInt 21" "PyStr ''ftp.example.com''" PyNone PyNone]
    by (simp add: anonymous_args_def)
qed

lemma port_override_object_fields:
  "iofile_file port_override_object = ''ftp.example.com/pub/data.txt''"
  "provider port_override_object = Some port_provider"
  "encrypt_data_channel port_override_object = PyBool False"
  "kwargs port_override_object ''port'' = Some (PyInt 2121)"
  "kwargs port_override_object ''host'' = None"
  "kwargs port_override_object ''username'' = None"
  "kwargs port_override_object ''password'' = None"
  "kwargs port_override_object ''encrypt_data_channel'' = None"
  by (simp_all add: port_override_object_def RemoteObject_def)

lemma port_override_session_args:
  "session_args (kwargs_to_use port_override_object port_provider 21) =
   Inr (anonymous_args ''ftp.example.com'' 2121)"
proof -
  let ?kw = "kwargs_to_use port_override_object port_provider 21"
  note h = address_properties(1) [OF port_override_object_fields(1)]
  have "?kw ''encrypt_data_channel'' = Some (PyBool False)" "?kw ''port'' = Some (PyInt 2121)"
    "?kw ''host'' = Some (PyStr ''ftp.example.com'')" "?kw ''username'' = Some PyNone"
    "?kw ''password'' = Some PyNone"
    by (simp_all add: kwargs_to_use_precedence precedence_def port_override_object_fields
        port_provider_def base_kwargs_items h)
  then show ?thesis
    using session_args_Inr [of ?kw "PyBool False" "PyInt 2121" "PyStr ''ftp.example.com''" PyNone PyNone]
    by (simp add: anonymous_args_def)
qed

text \<open>
  Claim C9 against the code.  A keyword \<^verbatim>\<open>port\<close> given for the file wins over the
  provider's: the connection is asked for port 2121, not 990.  The keyword
  \<^verbatim>\<open>encrypt_data_channel\<close> given for the file does not: \<^verbatim>\<open>__init__\<close> takes it as a parameter, so
  it is never in \<^verbatim>\<open>self.kwargs\<close>, and \<^verbatim>\<open>ftpc\<close> puts it in the lowest layer, where the
  provider's keyword overwrites it.  The object built with \<^verbatim>\<open>encrypt_data_channel=True\<close> on
  a provider built with \<^verbatim>\<open>encrypt_data_channel=False\<close> connects unencrypted, over plain
  \<^verbatim>\<open>FTP\<close>.
\<close>

theorem file_encryption_flag_loses_to_provider:
  "encrypt_data_channel encrypted_file_object = PyBool True \<and>
   provider_kwargs unencrypted_provider ''encrypt_data_channel'' = Some (PyBool False) \<and>
   kwargs_to_use encrypted_file_object unencrypted_provider 21 ''encrypt_data_channel'' =
     Some (PyBool False) \<and>
   ftpc_enter toy_library encrypted_file_object ([], empty_world) =
     (Inr 0,
      ([Connect 0
          \<lparr>conn_host = PyStr ''ftp.example.com'', conn_username = PyNone,
           conn_password = PyNone, conn_port = PyInt 21,
           conn_encrypt_data_channel = PyBool False, conn_base_class = FTP\<rparr>], empty_world)) \<and>
   kwargs port_override_object ''port'' = Some (PyInt 2121) \<and>
   provider_kwargs port_provider ''port'' = Some (PyInt 990) \<and>
   kwargs_to_use port_override_object port_provider 21 ''port'' = Some (PyInt 2121)"
proof -
  have a: "kwargs_to_use encrypted_file_object unencrypted_provider 21 ''encrypt_data_channel'' =
      Some (PyBool False)"
    by (simp add: kwargs_to_use_precedence precedence_def encrypted_file_object_fields
        unencrypted_provider_def)
  have b: "ftpc_enter toy_library encrypted_file_object ([], empty_world) =
      (Inr 0, ([Connect 0 (anonymous_args ''ftp.example.com'' 21)], empty_world))"
    using ftpc_enter_connect [OF encrypted_file_object_fields(2)
        address_properties(2) [OF encrypted_file_object_fields(1)] encrypted_file_session_args,
        of toy_library "[]" empty_world]
    by (simp add: toy_library_simps next_conn_simps)
  have c: "kwargs_to_use port_override_object port_provider 21 ''port'' = Some (PyInt 2121)"
    by (simp add: kwargs_to_use_precedence precedence_def port_override_object_fields)
  show ?thesis
    using a b c
    by (simp add: encrypted_file_object_fields port_override_object_fields
        unencrypted_provider_def port_provider_def anonymous_args_def)
qed

end
